theory Spec2Isabelle
  imports Complex_Main
begin

section \<open>Floating-point values\<close>

text \<open>
  The numbers of \<^verbatim>\<open>catalog.py\<close> are IEEE-754 binary64 values. A value is modelled as a
  real number, one of the two infinities, or NaN.

  Two levels of arithmetic are used. The constructor and the sum of the areas are
  modelled with the exact operations of this section: what is stated about them (which
  values are NaN, signs, order, which areas are skipped) does not depend on the rounding
  of the last digit. The containment test depends on it, and on underflow and overflow:
  it is modelled with the rounded operations of the next section. What is proved of the
  containment test holds for every value of \<open>a\<close> and \<open>b\<close>; in the examples the quotient
  \<open>radius / 60\<close> and the product \<open>a * ratio\<close> are binary64 values, which rounding leaves
  unchanged.

  The sign of a zero is not modelled; the only divisors of the program that can be zero
  are squares, whose zero is the positive one, and \<open>fl_div\<close> divides by a zero as by the
  positive zero.
\<close>

datatype fl = Fin real | PInf | NInf | NaN

fun inf_of_sign :: "real \<Rightarrow> fl" where
  "inf_of_sign s = (if s = 0 then NaN else if 0 < s then PInf else NInf)"

fun fl_neg :: "fl \<Rightarrow> fl" where
  "fl_neg (Fin x) = Fin (- x)"
| "fl_neg PInf = NInf"
| "fl_neg NInf = PInf"
| "fl_neg NaN = NaN"

fun fl_add :: "fl \<Rightarrow> fl \<Rightarrow> fl" where
  "fl_add NaN _ = NaN"
| "fl_add _ NaN = NaN"
| "fl_add (Fin x) (Fin y) = Fin (x + y)"
| "fl_add PInf NInf = NaN"
| "fl_add NInf PInf = NaN"
| "fl_add PInf _ = PInf"
| "fl_add _ PInf = PInf"
| "fl_add NInf _ = NInf"
| "fl_add _ NInf = NInf"

definition fl_sub :: "fl \<Rightarrow> fl \<Rightarrow> fl" where
  "fl_sub x y = fl_add x (fl_neg y)"

fun fl_mul :: "fl \<Rightarrow> fl \<Rightarrow> fl" where
  "fl_mul NaN _ = NaN"
| "fl_mul _ NaN = NaN"
| "fl_mul (Fin x) (Fin y) = Fin (x * y)"
| "fl_mul PInf (Fin y) = inf_of_sign y"
| "fl_mul NInf (Fin y) = inf_of_sign (- y)"
| "fl_mul (Fin x) PInf = inf_of_sign x"
| "fl_mul (Fin x) NInf = inf_of_sign (- x)"
| "fl_mul PInf PInf = PInf"
| "fl_mul PInf NInf = NInf"
| "fl_mul NInf PInf = NInf"
| "fl_mul NInf NInf = PInf"

fun fl_div :: "fl \<Rightarrow> fl \<Rightarrow> fl" where
  "fl_div NaN _ = NaN"
| "fl_div _ NaN = NaN"
| "fl_div (Fin x) (Fin y) = (if y = 0 then inf_of_sign x else Fin (x / y))"
| "fl_div (Fin x) PInf = Fin 0"
| "fl_div (Fin x) NInf = Fin 0"
| "fl_div PInf (Fin y) = (if 0 \<le> y then PInf else NInf)"
| "fl_div NInf (Fin y) = (if 0 \<le> y then NInf else PInf)"
| "fl_div PInf PInf = NaN"
| "fl_div PInf NInf = NaN"
| "fl_div NInf PInf = NaN"
| "fl_div NInf NInf = NaN"

text \<open>\<^verbatim>\<open>x <= y\<close>: every comparison with NaN is false.\<close>

fun fl_le :: "fl \<Rightarrow> fl \<Rightarrow> bool" where
  "fl_le NaN _ = False"
| "fl_le _ NaN = False"
| "fl_le (Fin x) (Fin y) = (x \<le> y)"
| "fl_le NInf _ = True"
| "fl_le _ PInf = True"
| "fl_le PInf _ = False"
| "fl_le _ NInf = False"

subsection \<open>The numpy functions of the constructor and of the sum\<close>

definition np_pi :: fl where
  "np_pi = Fin pi"

fun np_isnan :: "fl \<Rightarrow> bool" where
  "np_isnan NaN = True"
| "np_isnan _ = False"

definition np_deg2rad :: "fl \<Rightarrow> fl" where
  "np_deg2rad x = fl_mul x (Fin (pi / 180))"

section \<open>Binary64 arithmetic\<close>

text \<open>
  Rounding to the nearest binary64 value, ties to even: a positive \<open>x\<close> with
  \<open>2\<^sup>n \<le> x < 2\<^sup>n\<^sup>+\<^sup>1\<close> is rounded to a multiple of \<open>2\<^sup>e\<close> with \<open>e = max (n - 52) (-1074)\<close>
  (the lower bound is the spacing of the subnormal numbers, so small values underflow
  gradually, to 0 in the end), and a result of \<open>2\<^sup>1\<^sup>0\<^sup>2\<^sup>4\<close> or more is infinite.
\<close>

definition round_half_even :: "real \<Rightarrow> int" where
  "round_half_even q =
     (let f = \<lfloor>q\<rfloor>; d = q - of_int f
      in if d < 1 / 2 then f else if 1 / 2 < d then f + 1 else if even f then f else f + 1)"

definition round64_pos :: "real \<Rightarrow> fl" where
  "round64_pos x =
     (let e = max (\<lfloor>log 2 x\<rfloor> - 52) (- 1074);
          r = of_int (round_half_even (x / 2 powi e)) * 2 powi e
      in if 2 ^ 1024 \<le> r then PInf else Fin r)"

definition round64 :: "real \<Rightarrow> fl" where
  "round64 x =
     (if x = 0 then Fin 0
      else if 0 < x then round64_pos x
      else fl_neg (round64_pos (- x)))"

fun fl_round :: "fl \<Rightarrow> fl" where
  "fl_round (Fin x) = round64 x"
| "fl_round PInf = PInf"
| "fl_round NInf = NInf"
| "fl_round NaN = NaN"

text \<open>
  \<^verbatim>\<open>+\<close>, \<^verbatim>\<open>-\<close>, \<^verbatim>\<open>*\<close> and \<^verbatim>\<open>/\<close> on binary64 values: the exact result, rounded. When one
  operand is a numpy scalar a division by zero returns an infinity or NaN (with a
  warning, under numpy's default error handling); every division by a possible zero in
  the containment test has a numpy scalar as its numerator.
\<close>

definition f64_add :: "fl \<Rightarrow> fl \<Rightarrow> fl" where
  "f64_add x y = fl_round (fl_add x y)"

definition f64_sub :: "fl \<Rightarrow> fl \<Rightarrow> fl" where
  "f64_sub x y = fl_round (fl_sub x y)"

definition f64_mul :: "fl \<Rightarrow> fl \<Rightarrow> fl" where
  "f64_mul x y = fl_round (fl_mul x y)"

definition f64_div :: "fl \<Rightarrow> fl \<Rightarrow> fl" where
  "f64_div x y = fl_round (fl_div x y)"

text \<open>\<^verbatim>\<open>np.pi\<close> is the binary64 value nearest to \<open>\<pi>\<close>.\<close>

definition pi64 :: real where
  "pi64 = 7074237752028440 / 2 ^ 51"

text \<open>\<^verbatim>\<open>np.deg2rad(x)\<close> multiplies by the binary64 constant \<^verbatim>\<open>np.pi / 180\<close>.\<close>

definition np_deg2rad64 :: "fl \<Rightarrow> fl" where
  "np_deg2rad64 x = f64_mul x (f64_div (Fin pi64) (Fin 180))"

text \<open>
  \<^verbatim>\<open>np.cos\<close>, \<^verbatim>\<open>np.sin\<close> and \<^verbatim>\<open>**\<close> return what the C library computes, which
  IEEE-754 does not fix to the last digit (\<^verbatim>\<open>x ** 2\<close> is the library's \<^verbatim>\<open>pow(x, 2.0)\<close>,
  which is not always the rounded product \<^verbatim>\<open>x * x\<close>). The library is a parameter: it
  gives, for each finite argument, the binary64 value that \<^verbatim>\<open>cos\<close> and \<^verbatim>\<open>sin\<close> return, and
  the binary64 value or infinity that \<^verbatim>\<open>pow(x, 2.0)\<close> returns.
  A cosine or sine of an infinite or NaN argument is NaN.
\<close>

record libm =
  libm_cos :: "real \<Rightarrow> real"
  libm_sin :: "real \<Rightarrow> real"
  libm_pow2 :: "real \<Rightarrow> fl"

fun np_cos :: "libm \<Rightarrow> fl \<Rightarrow> fl" where
  "np_cos L (Fin x) = Fin (libm_cos L x)"
| "np_cos L _ = NaN"

fun np_sin :: "libm \<Rightarrow> fl \<Rightarrow> fl" where
  "np_sin L (Fin x) = Fin (libm_sin L x)"
| "np_sin L _ = NaN"

text \<open>
  \<^verbatim>\<open>x ** 2\<close>. The square of an infinity is the positive infinity and the square of NaN
  is NaN, without a call of the library. The run-time type of the base decides what an
  overflow does: for a Python \<^verbatim>\<open>float\<close> an infinite result from a finite base raises
  \<open>OverflowError\<close>; for a numpy \<^verbatim>\<open>float64\<close> the infinity is returned (with a warning).
  A result that underflows is returned by both.
\<close>

datatype num_type = PyFloat | NpFloat64

datatype py_error = ValueError | AttributeError | OverflowError

fun np_pow2 :: "libm \<Rightarrow> fl \<Rightarrow> fl" where
  "np_pow2 L (Fin x) = libm_pow2 L x"
| "np_pow2 L PInf = PInf"
| "np_pow2 L NInf = PInf"
| "np_pow2 L NaN = NaN"

fun fl_isinf :: "fl \<Rightarrow> bool" where
  "fl_isinf PInf = True"
| "fl_isinf NInf = True"
| "fl_isinf _ = False"

fun pow2_overflows :: "libm \<Rightarrow> fl \<Rightarrow> bool" where
  "pow2_overflows L (Fin x) = fl_isinf (libm_pow2 L x)"
| "pow2_overflows L _ = False"

definition float_pow2 :: "libm \<Rightarrow> num_type \<Rightarrow> fl \<Rightarrow> py_error + fl" where
  "float_pow2 L t x =
     (if t = PyFloat \<and> pow2_overflows L x then Inl OverflowError else Inr (np_pow2 L x))"

section \<open>Galaxy\<close>

text \<open>
  Of the sky coordinate of a galaxy the module reads \<^verbatim>\<open>center.ra.deg\<close> and
  \<^verbatim>\<open>center.dec.deg\<close> only; astropy returns them as numpy scalars.
\<close>

record SkyCoord =
  ra_deg :: fl
  dec_deg :: fl

text \<open>
  The dataclass with its six declared fields and the three attributes that
  \<^verbatim>\<open>__post_init__\<close> adds. \<open>a_type\<close> and \<open>b_type\<close> are the run-time types of the
  attributes \<open>a\<close> and \<open>b\<close>.
\<close>

record Galaxy =
  name :: string
  distance :: fl
  center :: SkyCoord
  radius :: fl
  ratio :: fl
  angle :: fl
  a :: fl
  b :: fl
  area :: fl
  a_type :: num_type
  b_type :: num_type

text \<open>
  \<^verbatim>\<open>Galaxy(name, distance, center, radius, ratio, angle)\<close>: the generated
  \<^verbatim>\<open>__init__\<close> stores the arguments and then runs \<^verbatim>\<open>__post_init__\<close>. \<open>tr\<close> and \<open>tq\<close>
  are the run-time types of the arguments \<^verbatim>\<open>radius\<close> and \<^verbatim>\<open>ratio\<close>:
  \<^verbatim>\<open>self.radius / 60\<close> has the type of the radius, and \<^verbatim>\<open>self.a * self.ratio\<close> is a
  Python \<^verbatim>\<open>float\<close> only when both factors are.
\<close>

definition Galaxy_init_typed ::
  "num_type \<Rightarrow> num_type \<Rightarrow> string \<Rightarrow> fl \<Rightarrow> SkyCoord \<Rightarrow> fl \<Rightarrow> fl \<Rightarrow> fl \<Rightarrow> Galaxy" where
  "Galaxy_init_typed tr tq nm dst c rad rat ang =
     (let a' = fl_div rad (Fin 60);
          b' = fl_mul a' rat;
          area' = fl_mul (fl_mul np_pi (np_deg2rad a')) (np_deg2rad b')
      in \<lparr>name = nm, distance = dst, center = c, radius = rad, ratio = rat, angle = ang,
          a = a', b = b', area = area',
          a_type = tr,
          b_type = (if tr = PyFloat \<and> tq = PyFloat then PyFloat else NpFloat64)\<rparr>)"

text \<open>The call of \<^verbatim>\<open>from_lv_catalog\<close>: the radius and the ratio of a pandas row are numpy scalars.\<close>

definition Galaxy_init :: "string \<Rightarrow> fl \<Rightarrow> SkyCoord \<Rightarrow> fl \<Rightarrow> fl \<Rightarrow> fl \<Rightarrow> Galaxy" where
  "Galaxy_init nm dst c rad rat ang = Galaxy_init_typed NpFloat64 NpFloat64 nm dst c rad rat ang"

text \<open>
  \<^verbatim>\<open>contains_point\<close>. \<^verbatim>\<open>x_t\<close> and \<^verbatim>\<open>y_t\<close> are numpy scalars, so their squares never
  raise; \<^verbatim>\<open>(self.a / 2) ** 2\<close> is evaluated before \<^verbatim>\<open>(self.b / 2) ** 2\<close>.
\<close>

definition contains_point :: "libm \<Rightarrow> Galaxy \<Rightarrow> fl \<Rightarrow> fl \<Rightarrow> py_error + bool" where
  "contains_point L self ra dec =
     (let cos_angle = np_cos L (f64_sub (Fin pi64) (np_deg2rad64 (angle self)));
          sin_angle = np_sin L (f64_sub (Fin pi64) (np_deg2rad64 (angle self)));
          x = f64_sub ra (ra_deg (center self));
          y = f64_sub dec (dec_deg (center self));
          x_t = f64_sub (f64_mul x cos_angle) (f64_mul y sin_angle);
          y_t = f64_add (f64_mul x sin_angle) (f64_mul y cos_angle)
      in case float_pow2 L (a_type self) (f64_div (a self) (Fin 2)) of
           Inl e \<Rightarrow> Inl e
         | Inr a2 \<Rightarrow>
             (case float_pow2 L (b_type self) (f64_div (b self) (Fin 2)) of
                Inl e \<Rightarrow> Inl e
              | Inr b2 \<Rightarrow>
                  (let r_norm = f64_add (f64_div (np_pow2 L x_t) a2) (f64_div (np_pow2 L y_t) b2)
                   in if fl_le r_norm (Fin 1) then Inr True else Inr False)))"

section \<open>LocalVolume\<close>

text \<open>
  \<^verbatim>\<open>galaxies: Dict[str, Galaxy]\<close>. A Python dictionary iterates in insertion order, and
  three methods depend on that order, so the mapping is the list of its items in
  insertion order; its keys are distinct. Every name owns its own \<open>Galaxy\<close>, as in the
  catalog that \<^verbatim>\<open>from_lv_catalog\<close> builds: one object stored under two names is not
  modelled.
\<close>

record LocalVolume =
  galaxies :: "(string \<times> Galaxy) list"

subsection \<open>sample_angles\<close>

text \<open>
  numpy's global random generator is a state \<open>'rng\<close> that is passed in and returned.
  The two numpy functions are parameters: \<open>np_random_seed n\<close> is the state that
  \<^verbatim>\<open>np.random.seed(n)\<close> installs (or the error it raises on a seed it rejects), and
  \<open>np_random_uniform lo hi s\<close> is the number that \<^verbatim>\<open>np.random.uniform(lo, hi)\<close> returns
  in state \<open>s\<close>, with the state after the draw.
  The argument \<^verbatim>\<open>seed\<close> is \<open>None\<close> or an integer; \<^verbatim>\<open>if seed:\<close> is false on \<open>None\<close> and
  on \<open>0\<close>.
\<close>

fun sample_angles_loop ::
  "(real \<Rightarrow> real \<Rightarrow> 'rng \<Rightarrow> real \<times> 'rng) \<Rightarrow> 'rng \<Rightarrow> (string \<times> Galaxy) list
     \<Rightarrow> 'rng \<times> (string \<times> Galaxy) list" where
  "sample_angles_loop np_random_uniform s [] = (s, [])"
| "sample_angles_loop np_random_uniform s ((nm, galaxy) # items) =
     (let (v, s') = np_random_uniform 0 360 s;
          (s'', items') = sample_angles_loop np_random_uniform s' items
      in (s'', (nm, galaxy\<lparr>angle := Fin v\<rparr>) # items'))"

definition sample_angles ::
  "(int \<Rightarrow> py_error + 'rng) \<Rightarrow> (real \<Rightarrow> real \<Rightarrow> 'rng \<Rightarrow> real \<times> 'rng) \<Rightarrow> int option
     \<Rightarrow> 'rng \<Rightarrow> LocalVolume \<Rightarrow> py_error + ('rng \<times> LocalVolume)" where
  "sample_angles np_random_seed np_random_uniform seed s self =
     (case (case seed of
              None \<Rightarrow> Inr s
            | Some n \<Rightarrow> if n \<noteq> 0 then np_random_seed n else Inr s) of
        Inl e \<Rightarrow> Inl e
      | Inr s0 \<Rightarrow>
          (let (s1, items) = sample_angles_loop np_random_uniform s0 (galaxies self)
           in Inr (s1, self\<lparr>galaxies := items\<rparr>)))"

subsection \<open>intercepts_galaxy\<close>

text \<open>An exception of \<^verbatim>\<open>contains_point\<close> ends the scan and leaves the method.\<close>

fun intercepts_galaxy_loop ::
  "libm \<Rightarrow> (string \<times> Galaxy) list \<Rightarrow> fl \<Rightarrow> fl \<Rightarrow> py_error + bool \<times> Galaxy option" where
  "intercepts_galaxy_loop L [] ra dec = Inr (False, None)"
| "intercepts_galaxy_loop L ((nm, galaxy) # items) ra dec =
     (case contains_point L galaxy ra dec of
        Inl e \<Rightarrow> Inl e
      | Inr inside \<Rightarrow>
          if inside then Inr (True, Some galaxy)
          else intercepts_galaxy_loop L items ra dec)"

definition intercepts_galaxy ::
  "libm \<Rightarrow> LocalVolume \<Rightarrow> fl \<Rightarrow> fl \<Rightarrow> py_error + bool \<times> Galaxy option" where
  "intercepts_galaxy L self ra dec = intercepts_galaxy_loop L (galaxies self) ra dec"

subsection \<open>percentage_sky_cover\<close>

fun total_area_loop :: "fl \<Rightarrow> (string \<times> Galaxy) list \<Rightarrow> fl" where
  "total_area_loop total_area [] = total_area"
| "total_area_loop total_area ((nm, galaxy) # items) =
     total_area_loop
       (if \<not> np_isnan (area galaxy) then fl_add total_area (area galaxy) else total_area)
       items"

definition percentage_sky_cover :: "LocalVolume \<Rightarrow> fl" where
  "percentage_sky_cover self =
     (let total_area = total_area_loop (Fin 0) (galaxies self);
          fraction_sky_cover = fl_div total_area (fl_mul (Fin 4) np_pi)
      in fl_mul fraction_sky_cover (Fin 100))"

subsection \<open>__getattr__\<close>

text \<open>
  Python calls \<^verbatim>\<open>__getattr__\<close> with a name that the ordinary attribute lookup did not
  find. For a name that is no key of the mapping the method evaluates
  \<^verbatim>\<open>super().__getattr__(name)\<close>; \<open>object\<close> defines no \<^verbatim>\<open>__getattr__\<close>, so this raises
  \<open>AttributeError\<close>.
\<close>

definition LocalVolume_getattr :: "LocalVolume \<Rightarrow> string \<Rightarrow> py_error + Galaxy" where
  "LocalVolume_getattr self nm =
     (case map_of (galaxies self) nm of
        Some galaxy \<Rightarrow> Inr galaxy
      | None \<Rightarrow> Inl AttributeError)"

section \<open>parse_skycoord\<close>

text \<open>\<^verbatim>\<open>x.split(sep)\<close> for a separator of one character: one more part than occurrences.\<close>

fun str_split :: "char \<Rightarrow> string \<Rightarrow> string list" where
  "str_split sep [] = [[]]"
| "str_split sep (c # cs) =
     (if c = sep then [] # str_split sep cs
      else (case str_split sep cs of
              [] \<Rightarrow> [[c]]
            | p # ps \<Rightarrow> (c # p) # ps))"

datatype astropy_unit = Mpc | hourangle | deg

text \<open>The arguments of the call of astropy's \<^verbatim>\<open>SkyCoord\<close>.\<close>

record SkyCoord_args =
  sc_string :: string
  sc_distance :: "fl \<times> astropy_unit"
  sc_frame :: string
  sc_unit :: "astropy_unit \<times> astropy_unit"

text \<open>
  astropy's constructor is the parameter \<open>SkyCoord_new\<close>; it returns the coordinate or
  raises. The tuple assignment \<^verbatim>\<open>ra, dec = x.split(sign)\<close> raises \<open>ValueError\<close> unless
  the split has exactly two parts.
\<close>

definition parse_skycoord ::
  "(SkyCoord_args \<Rightarrow> py_error + 'sk) \<Rightarrow> string \<Rightarrow> fl \<Rightarrow> py_error + 'sk" where
  "parse_skycoord SkyCoord_new x dst =
     (let sign = (if CHR ''+'' \<in> set x then CHR ''+'' else CHR ''-'') in
      case str_split sign x of
        [ra, dec] \<Rightarrow>
          (let ra_string = take 2 ra @ ''h'' @ take 2 (drop 2 ra) @ ''min'' @ drop 4 ra @ ''s'';
               dec_str = sign # take 2 dec @ ''.'' @ drop 2 dec
           in SkyCoord_new \<lparr>sc_string = ra_string @ '' '' @ dec_str,
                            sc_distance = (dst, Mpc),
                            sc_frame = ''icrs'',
                            sc_unit = (hourangle, deg)\<rparr>)
      | _ \<Rightarrow> Inl ValueError)"

section \<open>The specification's formulas\<close>

text \<open>
  The normalised radius as the specification writes it: the rotation is by
  \<open>\<pi> - rad(angle)\<close>, the offsets are \<open>x = ra - center.ra_deg\<close> and
  \<open>y = dec - center.dec_deg\<close>, the rotated coordinates are \<open>x_t = x cos - y sin\<close> and
  \<open>y_t = x sin + y cos\<close>, and \<open>r = x_t\<^sup>2 / (a/2)\<^sup>2 + y_t\<^sup>2 / (b/2)\<^sup>2\<close>, each operation
  in binary64.
\<close>

definition rotation_spec :: "fl \<Rightarrow> fl" where
  "rotation_spec ang = f64_sub (Fin pi64) (np_deg2rad64 ang)"

definition x_t_spec :: "libm \<Rightarrow> Galaxy \<Rightarrow> fl \<Rightarrow> fl \<Rightarrow> fl" where
  "x_t_spec L g ra dec =
     f64_sub (f64_mul (f64_sub ra (ra_deg (center g))) (np_cos L (rotation_spec (angle g))))
             (f64_mul (f64_sub dec (dec_deg (center g))) (np_sin L (rotation_spec (angle g))))"

definition y_t_spec :: "libm \<Rightarrow> Galaxy \<Rightarrow> fl \<Rightarrow> fl \<Rightarrow> fl" where
  "y_t_spec L g ra dec =
     f64_add (f64_mul (f64_sub ra (ra_deg (center g))) (np_sin L (rotation_spec (angle g))))
             (f64_mul (f64_sub dec (dec_deg (center g))) (np_cos L (rotation_spec (angle g))))"

definition r_norm_spec :: "libm \<Rightarrow> Galaxy \<Rightarrow> fl \<Rightarrow> fl \<Rightarrow> fl" where
  "r_norm_spec L g ra dec =
     f64_add (f64_div (np_pow2 L (x_t_spec L g ra dec)) (np_pow2 L (f64_div (a g) (Fin 2))))
             (f64_div (np_pow2 L (y_t_spec L g ra dec)) (np_pow2 L (f64_div (b g) (Fin 2))))"

text \<open>The squares of \<open>a / 2\<close> and \<open>b / 2\<close> that raise: those of a Python \<^verbatim>\<open>float\<close> that overflow.\<close>

definition raises_overflow :: "libm \<Rightarrow> Galaxy \<Rightarrow> bool" where
  "raises_overflow L g =
     (a_type g = PyFloat \<and> pow2_overflows L (f64_div (a g) (Fin 2))
      \<or> b_type g = PyFloat \<and> pow2_overflows L (f64_div (b g) (Fin 2)))"

text \<open>
  The same radius over the real numbers, as the formula reads without rounding: for
  the axes \<open>a\<close> and \<open>b\<close>, the angle, the centre and the point.
\<close>

definition r_norm_exact :: "real \<Rightarrow> real \<Rightarrow> real \<Rightarrow> real \<times> real \<Rightarrow> real \<times> real \<Rightarrow> real" where
  "r_norm_exact \<alpha> \<beta> \<theta> c p =
     (let \<rho> = pi - \<theta> * (pi / 180);
          x = fst p - fst c;
          y = snd p - snd c;
          x_t = x * cos \<rho> - y * sin \<rho>;
          y_t = x * sin \<rho> + y * cos \<rho>
      in x_t * x_t / (\<alpha> / 2 * (\<alpha> / 2)) + y_t * y_t / (\<beta> / 2 * (\<beta> / 2)))"

text \<open>Zero, positive, infinite or NaN.\<close>

fun not_negative :: "fl \<Rightarrow> bool" where
  "not_negative (Fin x) = (0 \<le> x)"
| "not_negative PInf = True"
| "not_negative NInf = False"
| "not_negative NaN = True"

text \<open>A number other than zero: finite and not zero, or infinite.\<close>

fun nonzero_number :: "fl \<Rightarrow> bool" where
  "nonzero_number (Fin x) = (x \<noteq> 0)"
| "nonzero_number PInf = True"
| "nonzero_number NInf = True"
| "nonzero_number NaN = False"

text \<open>
  A library whose \<^verbatim>\<open>pow(x, 2.0)\<close> is in error by less than one unit in the last place:
  it returns the rounding of a number that differs from \<open>x\<^sup>2\<close> by at most \<open>2\<^sup>-\<^sup>5\<^sup>2 x\<^sup>2\<close>, or
  by at most the spacing \<open>2\<^sup>-\<^sup>1\<^sup>0\<^sup>7\<^sup>4\<close> of the subnormal numbers.
\<close>

definition pow2_accurate :: "libm \<Rightarrow> bool" where
  "pow2_accurate L =
     (\<forall>x. \<exists>y. \<bar>y - x * x\<bar> \<le> max (x * x / 2 ^ 52) (1 / 2 ^ 1074) \<and> libm_pow2 L x = round64 y)"

text \<open>The real number that a finite value holds.\<close>

fun fl_real :: "fl \<Rightarrow> real" where
  "fl_real (Fin x) = x"
| "fl_real _ = 0"

text \<open>
  A C library for the examples: its cosine and sine are the binary64 values nearest to
  the cosine and the sine, and its \<^verbatim>\<open>pow(x, 2.0)\<close> is the rounded square. The values
  at \<^verbatim>\<open>np.pi\<close> and at the rotation angles of \<open>-50\<close> and \<open>130\<close> degrees are written out.
\<close>

definition example_libm :: libm where
  "example_libm =
     \<lparr>libm_cos = (\<lambda>x.
         if x = pi64 then - 1
         else if x = 4519651897129281 / 2 ^ 50 then - (5789716078925342 / 2 ^ 53)
         else if x = 7860264168920488 / 2 ^ 53 then 5789716078925342 / 2 ^ 53
         else fl_real (round64 (cos x))),
      libm_sin = (\<lambda>x.
         if x = pi64 then 4967757600021511 / 2 ^ 105
         else if x = 4519651897129281 / 2 ^ 50 then - (6899914937159736 / 2 ^ 53)
         else if x = 7860264168920488 / 2 ^ 53 then 6899914937159736 / 2 ^ 53
         else fl_real (round64 (sin x))),
      libm_pow2 = (\<lambda>x. round64 (x * x))\<rparr>"

text \<open>
  The sky cover as the specification writes it: 100 times the sum of the areas that
  are not NaN, divided by \<open>4\<pi>\<close>.
\<close>

definition fl_sum :: "fl list \<Rightarrow> fl" where
  "fl_sum xs = foldr fl_add xs (Fin 0)"

definition sky_cover_spec :: "LocalVolume \<Rightarrow> fl" where
  "sky_cover_spec lv =
     fl_div (fl_mul (Fin 100)
               (fl_sum (filter (\<lambda>v. \<not> np_isnan v) (map (\<lambda>(k, g). area g) (galaxies lv)))))
            (Fin (4 * pi))"

text \<open>The first \<open>n\<close> numbers that \<^verbatim>\<open>np.random.uniform(0, 360)\<close> returns from state \<open>s\<close>.\<close>

fun draws :: "(real \<Rightarrow> real \<Rightarrow> 'rng \<Rightarrow> real \<times> 'rng) \<Rightarrow> 'rng \<Rightarrow> nat \<Rightarrow> real list" where
  "draws np_random_uniform s 0 = []"
| "draws np_random_uniform s (Suc n) =
     (let (v, s') = np_random_uniform 0 360 s in v # draws np_random_uniform s' n)"

text \<open>The angle that each name holds, in the order of the mapping.\<close>

definition angles_by_name :: "LocalVolume \<Rightarrow> (string \<times> fl) list" where
  "angles_by_name lv = map (\<lambda>(k, g). (k, angle g)) (galaxies lv)"

text \<open>The angles after a call of \<^verbatim>\<open>sample_angles\<close>, or the error it raised.\<close>

definition result_angles ::
  "py_error + ('rng \<times> LocalVolume) \<Rightarrow> py_error + (string \<times> fl) list" where
  "result_angles r = (case r of Inl e \<Rightarrow> Inl e | Inr (s, lv) \<Rightarrow> Inr (angles_by_name lv))"

section \<open>Arithmetic of the exact operations\<close>

lemma fl_add_NaN_right [simp]: "fl_add x NaN = NaN"
  by (cases x) simp_all

lemma fl_mul_NaN_right [simp]: "fl_mul x NaN = NaN"
  by (cases x) simp_all

lemma fl_div_NaN_right [simp]: "fl_div x NaN = NaN"
  by (cases x) simp_all

lemma fl_le_NaN_right [simp]: "fl_le x NaN = False"
  by (cases x) simp_all

lemma fl_add_commute: "fl_add x y = fl_add y x"
  by (cases x; cases y) simp_all

lemma fl_add_assoc: "fl_add (fl_add x y) z = fl_add x (fl_add y z)"
  by (cases x; cases y; cases z) simp_all

lemma fl_add_zero_left [simp]: "fl_add (Fin 0) x = x"
  by (cases x) simp_all


lemma fl_neg_neg [simp]: "fl_neg (fl_neg x) = x"
  by (cases x) simp_all



lemma np_isnan_iff: "np_isnan x \<longleftrightarrow> x = NaN"
  by (cases x) simp_all

lemma fl_mul_isnan:
  "np_isnan (fl_mul x y) \<longleftrightarrow>
     np_isnan x \<or> np_isnan y \<or> (x = Fin 0 \<and> (y = PInf \<or> y = NInf))
       \<or> (y = Fin 0 \<and> (x = PInf \<or> x = NInf))"
  by (cases x; cases y) auto

section \<open>Rounding to binary64\<close>

lemma round_half_even_near:
  assumes "\<bar>q - of_int M\<bar> < 1 / 2"
  shows "round_half_even q = M"
proof -
  have "\<lfloor>q\<rfloor> = M \<or> \<lfloor>q\<rfloor> = M - 1"
    using assms by (auto simp: floor_eq_iff abs_less_iff)
  then show ?thesis
  proof
    assume f: "\<lfloor>q\<rfloor> = M"
    then have "q - of_int M < 1 / 2" using assms by linarith
    with f show ?thesis by (simp add: round_half_even_def Let_def)
  next
    assume f: "\<lfloor>q\<rfloor> = M - 1"
    then have "q < of_int M" by (simp add: floor_eq_iff)
    with assms have "1 / 2 < q - of_int (M - 1)" by simp
    with f show ?thesis by (simp add: round_half_even_def Let_def)
  qed
qed

lemma round_half_even_of_int [simp]: "round_half_even (of_int M) = M"
  by (rule round_half_even_near) simp

lemma round_half_even_bounds: "\<lfloor>q\<rfloor> \<le> round_half_even q \<and> round_half_even q \<le> \<lceil>q\<rceil>"
  by (auto simp: round_half_even_def Let_def ceiling_altdef)

lemma binade:
  assumes "0 < x"
  shows "2 powi \<lfloor>log 2 x\<rfloor> \<le> x \<and> x < 2 powi (\<lfloor>log 2 x\<rfloor> + 1)"
proof -
  let ?j = "\<lfloor>log 2 x\<rfloor>"
  have "2 powr (real_of_int ?j) \<le> x \<and> x < 2 powr (real_of_int ?j + 1)"
    using floor_log_eq_powr_iff [of x 2 ?j] assms by simp
  moreover have "2 powr (real_of_int ?j) = (2::real) powi ?j"
    by (simp add: powr_real_of_int')
  moreover have "2 powr (real_of_int ?j + 1) = (2::real) powi (?j + 1)"
    using powr_real_of_int' [of 2 "?j + 1"] by (simp add: add.commute)
  ultimately show ?thesis by simp
qed

lemma floor_log2_powi:
  assumes "2 powi n \<le> x" "x < 2 powi (n + 1)"
  shows "\<lfloor>log 2 x\<rfloor> = n"
proof -
  have "(0::real) < 2 powi n" by simp
  with assms(1) have pos: "0 < x" by linarith
  have "2 powr (real_of_int n) = (2::real) powi n"
    by (simp add: powr_real_of_int')
  moreover have "2 powr (real_of_int n + 1) = (2::real) powi (n + 1)"
    using powr_real_of_int' [of 2 "n + 1"] by (simp add: add.commute)
  ultimately have "2 powr (real_of_int n) \<le> x \<and> x < 2 powr (real_of_int n + 1)"
    using assms by simp
  with pos show ?thesis
    by (simp add: floor_log_eq_powr_iff)
qed

lemma round64_pos_eval:
  assumes "2 powi n \<le> x" "x < 2 powi (n + 1)"
    and "e = max (n - 52) (- 1074)"
    and "\<bar>x / 2 powi e - of_int M\<bar> < 1 / 2"
    and "of_int M * 2 powi e < (2::real) ^ 1024"
  shows "round64_pos x = Fin (of_int M * 2 powi e)"
  using floor_log2_powi [OF assms(1,2)] round_half_even_near [OF assms(4)] assms(3,5)
  by (simp add: round64_pos_def Let_def)

lemma round64_pos_overflow:
  assumes "2 powi n \<le> x" "x < 2 powi (n + 1)"
    and "e = max (n - 52) (- 1074)"
    and "\<bar>x / 2 powi e - of_int M\<bar> < 1 / 2"
    and "(2::real) ^ 1024 \<le> of_int M * 2 powi e"
  shows "round64_pos x = PInf"
  using floor_log2_powi [OF assms(1,2)] round_half_even_near [OF assms(4)] assms(3,5)
  by (simp add: round64_pos_def Let_def)

lemma round64_0 [simp]: "round64 0 = Fin 0"
  by (simp add: round64_def)


lemma powi2_le_exp:
  assumes "(2::real) powi m \<le> x" "x < 2 powi n"
  shows "m < n"
proof (rule ccontr)
  assume "\<not> m < n"
  then have "(2::real) powi n \<le> 2 powi m"
    by (intro power_int_increasing) simp_all
  with assms show False by linarith
qed

lemma powi2_split: "(2::real) powi n = 2 powi (n - e) * 2 powi e"
  using power_int_add [of "2::real" "n - e" e] by simp

lemma round64_pos_upper:
  assumes "0 < x" "x \<le> 2 powi n" "- 1074 \<le> n" "n \<le> 1023"
  shows "\<exists>r. round64_pos x = Fin r \<and> 0 \<le> r \<and> r \<le> 2 powi n"
proof -
  define j where "j = \<lfloor>log 2 x\<rfloor>"
  define e where "e = max (j - 52) (- 1074)"
  define q where "q = x / 2 powi e"
  define r where "r = real_of_int (round_half_even q) * 2 powi e"
  have b: "2 powi j \<le> x" "x < 2 powi (j + 1)"
    using binade [OF assms(1)] by (simp_all add: j_def)
  have "x < 2 powi (n + 1)"
  proof -
    have "(2::real) powi n < 2 powi (n + 1)"
      by (intro power_int_strict_increasing) simp_all
    with assms(2) show ?thesis by linarith
  qed
  with b(1) have "j < n + 1" by (rule powi2_le_exp)
  then have en: "e \<le> n" using assms(3) by (simp add: e_def)
  have pe: "(0::real) < 2 powi e" by simp
  have q0: "0 \<le> q" using assms(1) pe by (simp add: q_def)
  have "q \<le> 2 powi n / 2 powi e"
    using assms(2) pe by (simp add: q_def divide_right_mono)
  also have "\<dots> = 2 powi (n - e)"
    using powi2_split [of n e] by simp
  also have "\<dots> = real_of_int (2 ^ nat (n - e))"
    using en by (simp add: power_int_nonneg_exp)
  finally have "\<lceil>q\<rceil> \<le> 2 ^ nat (n - e)"
    by (simp add: ceiling_le_iff)
  with round_half_even_bounds [of q] have "round_half_even q \<le> 2 ^ nat (n - e)"
    by linarith
  then have "real_of_int (round_half_even q) \<le> real_of_int (2 ^ nat (n - e))"
    by (rule of_int_le_iff [THEN iffD2])
  then have "r \<le> real_of_int (2 ^ nat (n - e)) * 2 powi e"
    using pe by (simp add: r_def)
  also have "\<dots> = 2 powi (n - e) * 2 powi e"
    using en by (simp add: power_int_nonneg_exp)
  also have "\<dots> = 2 powi n"
    using powi2_split [of n e] by simp
  finally have rn: "r \<le> 2 powi n" .
  have "0 \<le> \<lfloor>q\<rfloor>" using q0 by simp
  with round_half_even_bounds [of q] have "0 \<le> round_half_even q" by linarith
  then have r0: "0 \<le> r" by (simp add: r_def)
  have "(2::real) powi n \<le> 2 powi 1023"
    using assms(4) by (intro power_int_increasing) simp_all
  also have "\<dots> < (2::real) ^ 1024" by simp
  finally have "r < 2 ^ 1024" using rn by linarith
  then have "round64_pos x = Fin r"
    by (simp add: round64_pos_def Let_def j_def [symmetric] e_def [symmetric]
        q_def [symmetric] r_def [symmetric])
  with r0 rn show ?thesis by blast
qed

lemma round64_pos_lower:
  assumes "2 powi m \<le> x" "- 1022 \<le> m"
  shows "round64_pos x = PInf \<or> (\<exists>r. round64_pos x = Fin r \<and> 2 powi m \<le> r)"
proof -
  define j where "j = \<lfloor>log 2 x\<rfloor>"
  define e where "e = max (j - 52) (- 1074)"
  define q where "q = x / 2 powi e"
  define r where "r = real_of_int (round_half_even q) * 2 powi e"
  have "(0::real) < 2 powi m" by simp
  with assms(1) have pos: "0 < x" by linarith
  have b: "2 powi j \<le> x" "x < 2 powi (j + 1)"
    using binade [OF pos] by (simp_all add: j_def)
  from assms(1) b(2) have "m < j + 1" by (rule powi2_le_exp)
  then have mj: "m \<le> j" by simp
  with assms(2) have e: "e = j - 52" by (simp add: e_def)
  have pe: "(0::real) < 2 powi e" by simp
  have "2 powi j / 2 powi e \<le> q"
    using b(1) pe by (simp add: q_def divide_right_mono)
  moreover have "(2::real) powi j / 2 powi e = 2 powi (j - e)"
    using powi2_split [of j e] by simp
  moreover have "(2::real) powi (j - e) = real_of_int (2 ^ 52)"
    by (simp add: e)
  ultimately have "real_of_int (2 ^ 52) \<le> q" by simp
  then have "2 ^ 52 \<le> \<lfloor>q\<rfloor>" by (simp add: le_floor_iff)
  with round_half_even_bounds [of q] have "2 ^ 52 \<le> round_half_even q" by linarith
  then have "real_of_int (2 ^ 52) \<le> real_of_int (round_half_even q)"
    by (rule of_int_le_iff [THEN iffD2])
  then have "real_of_int (2 ^ 52) * 2 powi e \<le> r"
    using pe by (simp add: r_def)
  moreover have "real_of_int (2 ^ 52) * 2 powi e = 2 powi j"
    using powi2_split [of j e] by (simp add: e)
  moreover have "(2::real) powi m \<le> 2 powi j"
    using mj by (intro power_int_increasing) simp_all
  ultimately have "2 powi m \<le> r" by linarith
  moreover have "round64_pos x = (if 2 ^ 1024 \<le> r then PInf else Fin r)"
    by (simp add: round64_pos_def Let_def j_def [symmetric] e_def [symmetric]
        q_def [symmetric] r_def [symmetric])
  ultimately show ?thesis by auto
qed

lemma round64_pos_exact:
  assumes "0 < M" "M < 2 ^ 53" "- 1074 \<le> e" "real_of_int M * 2 powi e < 2 ^ 1024"
  shows "round64_pos (real_of_int M * 2 powi e) = Fin (real_of_int M * 2 powi e)"
proof -
  define x where "x = real_of_int M * 2 powi e"
  define j where "j = \<lfloor>log 2 x\<rfloor>"
  define e' where "e' = max (j - 52) (- 1074)"
  have pe: "(0::real) < 2 powi e" by simp
  have pos: "0 < x" using assms(1) pe by (simp add: x_def)
  have b: "2 powi j \<le> x" "x < 2 powi (j + 1)"
    using binade [OF pos] by (simp_all add: j_def)
  have "real_of_int M < real_of_int (2 ^ 53)"
    using assms(2) by (rule of_int_less_iff [THEN iffD2])
  then have "x < real_of_int (2 ^ 53) * 2 powi e"
    using pe by (simp add: x_def)
  also have "\<dots> = 2 powi (53 + e)"
    using power_int_add [of "2::real" 53 e] by simp
  finally have "x < 2 powi (53 + e)" .
  with b(1) have "j < 53 + e" by (rule powi2_le_exp)
  then have le: "e' \<le> e" using assms(3) by (simp add: e'_def)
  have "x / 2 powi e' = real_of_int M * (2 powi e / 2 powi e')"
    by (simp add: x_def)
  also have "2 powi e / 2 powi e' = (2::real) powi (e - e')"
    using powi2_split [of e e'] by simp
  also have "\<dots> = real_of_int (2 ^ nat (e - e'))"
    using le by (simp add: power_int_nonneg_exp)
  finally have q: "x / 2 powi e' = real_of_int (M * 2 ^ nat (e - e'))"
    by simp
  have rq: "round_half_even (x / 2 powi e') = M * 2 ^ nat (e - e')"
    by (simp only: q round_half_even_of_int)
  have "x = (x / 2 powi e') * 2 powi e'" by simp
  then have "real_of_int (M * 2 ^ nat (e - e')) * 2 powi e' = x"
    by (simp only: q)
  then have "real_of_int (round_half_even (x / 2 powi e')) * 2 powi e' = x"
    by (simp only: rq)
  then have "round64_pos x = (if 2 ^ 1024 \<le> x then PInf else Fin x)"
    by (simp add: round64_pos_def Let_def j_def [symmetric] e'_def [symmetric])
  with assms(4) show ?thesis by (simp add: x_def)
qed

lemma round64_exact:
  assumes "\<bar>M\<bar> < 2 ^ 53" "- 1074 \<le> e" "\<bar>real_of_int M * 2 powi e\<bar> < 2 ^ 1024"
  shows "round64 (real_of_int M * 2 powi e) = Fin (real_of_int M * 2 powi e)"
proof -
  have pe: "(0::real) < 2 powi e" by simp
  consider "M = 0" | "0 < M" | "M < 0" by linarith
  then show ?thesis
  proof cases
    case 1
    then show ?thesis by simp
  next
    case 2
    with pe have "0 < real_of_int M * 2 powi e" by simp
    moreover have "round64_pos (real_of_int M * 2 powi e) = Fin (real_of_int M * 2 powi e)"
      using 2 assms by (intro round64_pos_exact) simp_all
    ultimately show ?thesis by (simp add: round64_def)
  next
    case 3
    have "round64_pos (real_of_int (- M) * 2 powi e) = Fin (real_of_int (- M) * 2 powi e)"
      using 3 assms by (intro round64_pos_exact) simp_all
    moreover have "real_of_int M * 2 powi e < 0"
      using 3 pe by (simp add: mult_neg_pos)
    ultimately show ?thesis by (simp add: round64_def)
  qed
qed

lemma round64_pos_not_negative: "0 < x \<Longrightarrow> not_negative (round64_pos x)"
proof -
  assume "0 < x"
  define q where "q = x / 2 powi max (\<lfloor>log 2 x\<rfloor> - 52) (- 1074)"
  have "0 \<le> q" using \<open>0 < x\<close> by (simp add: q_def)
  then have "0 \<le> \<lfloor>q\<rfloor>" by simp
  with round_half_even_bounds [of q] have "0 \<le> round_half_even q" by linarith
  then show ?thesis
    by (simp add: round64_pos_def Let_def q_def [symmetric])
qed

lemma round64_not_negative: "0 \<le> x \<Longrightarrow> not_negative (round64 x)"
  by (simp add: round64_def round64_pos_not_negative)

lemma round64_between:
  assumes "2 powi m \<le> x" "x \<le> 2 powi n" "- 1022 \<le> m" "n \<le> 1023"
  shows "\<exists>r. round64 x = Fin r \<and> 2 powi m \<le> r \<and> r \<le> 2 powi n"
proof -
  have "(0::real) < 2 powi m" by simp
  with assms(1) have pos: "0 < x" by linarith
  have "(2::real) powi n < 2 powi (n + 1)"
    by (intro power_int_strict_increasing) simp_all
  with assms(1,2) have "(2::real) powi m \<le> 2 powi n" "(2::real) powi n < 2 powi (n + 1)"
    by linarith+
  then have "m < n + 1" by (rule powi2_le_exp)
  with assms(3) have "- 1074 \<le> n" by simp
  from round64_pos_upper [OF pos assms(2) this assms(4)]
  obtain r where r: "round64_pos x = Fin r" "r \<le> 2 powi n" by blast
  with round64_pos_lower [OF assms(1,3)] have "2 powi m \<le> r" by simp
  with r pos show ?thesis by (simp add: round64_def)
qed

lemma round64_abs_le:
  assumes "\<bar>x\<bar> \<le> 2 powi n" "- 1074 \<le> n" "n \<le> 1023"
  shows "\<exists>r. round64 x = Fin r \<and> \<bar>r\<bar> \<le> 2 powi n"
proof -
  consider "x = 0" | "0 < x" | "x < 0" by linarith
  then show ?thesis
  proof cases
    case 1
    then show ?thesis by simp
  next
    case 2
    with assms have "x \<le> 2 powi n" by simp
    from round64_pos_upper [OF 2 this assms(2,3)] 2 show ?thesis
      by (auto simp: round64_def)
  next
    case 3
    then have p: "0 < - x" by simp
    from 3 assms have "- x \<le> 2 powi n" by simp
    from round64_pos_upper [OF p this assms(2,3)] 3 show ?thesis
      by (auto simp: round64_def)
  qed
qed

text \<open>
  How a rounding is evaluated: a value \<open>M 2\<^sup>e\<close> with \<open>|M| < 2\<^sup>5\<^sup>3\<close> is returned unchanged,
  and a value of the binade \<open>n\<close> within half a unit of \<open>M 2\<^sup>e\<close> is rounded to it.
\<close>

lemma round64_exact_eq:
  assumes "x = real_of_int M * 2 powi e" "\<bar>M\<bar> < 2 ^ 53" "- 1074 \<le> e" "\<bar>x\<bar> < 2 ^ 1024"
  shows "round64 x = Fin x"
  using round64_exact [of M e] assms by simp

lemma round64_near:
  assumes "0 < x" "2 powi n \<le> x" "x < 2 powi (n + 1)"
    and "e = max (n - 52) (- 1074)"
    and "\<bar>x / 2 powi e - of_int M\<bar> < 1 / 2"
    and "y = of_int M * 2 powi e" "y < 2 ^ 1024"
  shows "round64 x = Fin y"
  using round64_pos_eval [of n x e M] assms by (simp add: round64_def)


section \<open>The rounded operations\<close>






lemma np_pow2_not_negative:
  "\<forall>x. not_negative (libm_pow2 L x) \<Longrightarrow> not_negative (np_pow2 L v)"
  by (cases v) simp_all

lemma np_pow2_zero: "libm_pow2 L 0 = Fin 0 \<Longrightarrow> np_pow2 L (Fin 0) = Fin 0"
  by simp

lemma fl_round_not_negative: "not_negative x \<Longrightarrow> not_negative (fl_round x)"
  by (cases x) (simp_all add: round64_not_negative)

lemma fl_div_not_negative:
  "not_negative x \<Longrightarrow> not_negative y \<Longrightarrow> not_negative (fl_div x y)"
  by (cases x; cases y) auto

lemma f64_div_not_negative:
  "not_negative x \<Longrightarrow> not_negative y \<Longrightarrow> not_negative (f64_div x y)"
  by (simp add: f64_div_def fl_round_not_negative fl_div_not_negative)

lemma f64_div_by_zero:
  "not_negative x \<Longrightarrow> f64_div x (Fin 0) = NaN \<or> f64_div x (Fin 0) = PInf"
  by (cases x) (auto simp: f64_div_def)

lemma f64_add_PInf_not_le:
  "(x = NaN \<or> x = PInf) \<Longrightarrow> not_negative y \<Longrightarrow> \<not> fl_le (f64_add x y) (Fin 1)"
  by (cases y) (auto simp: f64_add_def)

lemma f64_add_not_le_PInf:
  "not_negative x \<Longrightarrow> (y = NaN \<or> y = PInf) \<Longrightarrow> \<not> fl_le (f64_add x y) (Fin 1)"
  by (cases x) (auto simp: f64_add_def)

lemma half_of_zero: "f64_div (Fin 0) (Fin 2) = Fin 0"
  by (simp add: f64_div_def)

lemma f64_NaN [simp]:
  "f64_div NaN y = NaN" "f64_div x NaN = NaN" "f64_add NaN y = NaN" "f64_add x NaN = NaN"
  by (simp_all add: f64_div_def f64_add_def)

lemma f64_div_zero_nonzero: "nonzero_number d \<Longrightarrow> f64_div (Fin 0) d = Fin 0"
  by (cases d) (simp_all add: f64_div_def)

lemma float_pow2_Inr:
  "float_pow2 L t x = Inr v \<Longrightarrow> \<not> (t = PyFloat \<and> pow2_overflows L x) \<and> np_pow2 L x = v"
  by (auto simp: float_pow2_def split: if_splits)

section \<open>The values of the examples\<close>

lemma r_1: "round64 1 = Fin 1"
  by (rule round64_exact_eq [of _ 1 0]) simp_all

lemma r_m1: "round64 (- 1) = Fin (- 1)"
  by (rule round64_exact_eq [of _ "- 1" 0]) simp_all

lemma r_2: "round64 2 = Fin 2"
  by (rule round64_exact_eq [of _ 2 0]) simp_all

lemma r_4: "round64 4 = Fin 4"
  by (rule round64_exact_eq [of _ 4 0]) simp_all

lemma r_quarter: "round64 (1 / 4) = Fin (1 / 4)"
  by (rule round64_exact_eq [of _ 1 "- 2"]) (simp_all add: power_int_minus)

lemma r_180: "round64 180 = Fin 180"
  by (rule round64_exact_eq [of _ 180 0]) simp_all


lemma r_pi64: "round64 pi64 = Fin pi64"
  by (rule round64_exact_eq [of _ 7074237752028440 "- 51"]) (simp_all add: pi64_def power_int_minus)

lemma r_s0: "round64 (4967757600021511 / 2 ^ 105) = Fin (4967757600021511 / 2 ^ 105)"
  by (rule round64_exact_eq [of _ 4967757600021511 "- 105"]) (simp_all add: power_int_minus)

lemma r_s0_sq:
  "round64 (4967757600021511 / 2 ^ 105 * (4967757600021511 / 2 ^ 105)) = Fin (5479753444908360 / 2 ^ 158)"
  by (rule round64_near [of _ "- 106" "- 158" 5479753444908360]) (simp_all add: power_int_minus)

lemma r_b_half: "round64 (1 / 2 ^ 54) = Fin (1 / 2 ^ 54)"
  by (rule round64_exact_eq [of _ 1 "- 54"]) (simp_all add: power_int_minus)

lemma r_b_half_sq: "round64 (1 / 2 ^ 108) = Fin (1 / 2 ^ 108)"
  by (rule round64_exact_eq [of _ 1 "- 108"]) (simp_all add: power_int_minus)

lemma r_t2: "round64 (5479753444908360 / 2 ^ 50) = Fin (5479753444908360 / 2 ^ 50)"
  by (rule round64_exact_eq [of _ 5479753444908360 "- 50"]) (simp_all add: power_int_minus)

lemma r_sum: "round64 (5761228421619016 / 2 ^ 50) = Fin (5761228421619016 / 2 ^ 50)"
  by (rule round64_exact_eq [of _ 5761228421619016 "- 50"]) (simp_all add: power_int_minus)

lemma r_m64: "round64 (- 64) = Fin (- 64)"
  by (rule round64_exact_eq [of _ "- 64" 0]) simp_all

lemma r_4096: "round64 4096 = Fin 4096"
  by (rule round64_exact_eq [of _ 4096 0]) simp_all

lemma r_tiny_half: "round64 (1 / 2 ^ 601) = Fin (1 / 2 ^ 601)"
  by (rule round64_exact_eq [of _ 1 "- 601"]) (simp_all add: power_int_minus)

lemma r_tiny_sq: "round64 (1 / 2 ^ 1202) = Fin 0"
  using round64_near [of "1 / 2 ^ 1202" "- 1202" "- 1074" 0 0]
  by (simp add: power_int_minus)

lemma r_huge_half: "round64 (2 ^ 600) = Fin (2 ^ 600)"
  by (rule round64_exact_eq [of _ 1 600]) simp_all

lemma r_huge_sq: "round64 (2 ^ 1200) = PInf"
  using round64_pos_overflow [of 1200 "2 ^ 1200" 1148 "2 ^ 52"]
  by (simp add: round64_def)

text \<open>
  \<^verbatim>\<open>np.deg2rad\<close> multiplies by the binary64 quotient of \<^verbatim>\<open>np.pi\<close> and 180. The radians
  of 180 degrees are \<^verbatim>\<open>np.pi\<close> itself, so the rotation angle of a galaxy at 180 degrees is
  exactly 0; the rotation angle of a galaxy at 0 degrees is \<^verbatim>\<open>np.pi\<close>.
\<close>

lemma deg2rad_factor: "f64_div (Fin pi64) (Fin 180) = Fin (5030569068109113 / 2 ^ 58)"
  unfolding f64_div_def
  by (simp, rule round64_near [of _ "- 6" "- 58" 5030569068109113])
     (simp_all add: pi64_def power_int_minus)

lemma deg2rad_0: "np_deg2rad64 (Fin 0) = Fin 0"
  by (simp add: np_deg2rad64_def deg2rad_factor f64_mul_def)

lemma deg2rad_180: "np_deg2rad64 (Fin 180) = Fin pi64"
  unfolding np_deg2rad64_def deg2rad_factor f64_mul_def
  by (simp, rule round64_near [of _ 1 "- 51" 7074237752028440])
     (simp_all add: pi64_def power_int_minus)

lemma rotation_0: "rotation_spec (Fin 0) = Fin pi64"
  by (simp add: rotation_spec_def deg2rad_0 f64_sub_def fl_sub_def r_pi64)

lemma rotation_180: "rotation_spec (Fin 180) = Fin 0"
  by (simp add: rotation_spec_def deg2rad_180 f64_sub_def fl_sub_def)

lemma pi64_not_0: "pi64 \<noteq> 0"
  by (simp add: pi64_def)







lemma libm_at_pi: "libm_cos example_libm pi64 = - 1"
  "libm_sin example_libm pi64 = 4967757600021511 / 2 ^ 105"
  by (simp_all add: example_libm_def)

lemma libm_at_0: "libm_cos example_libm 0 = 1" "libm_sin example_libm 0 = 0"
  by (simp_all add: example_libm_def pi64_def r_1)

lemma libm_pow2_example: "libm_pow2 example_libm x = round64 (x * x)"
  by (simp add: example_libm_def)



lemma example_libm_pow2_zero: "libm_pow2 example_libm 0 = Fin 0"
  by (simp add: libm_pow2_example)

lemma example_libm_pow2_not_negative: "\<forall>x. not_negative (libm_pow2 example_libm x)"
  by (simp add: libm_pow2_example round64_not_negative)

lemma example_libm_pow2_accurate: "pow2_accurate example_libm"
  unfolding pow2_accurate_def
proof
  fix x :: real
  have "\<bar>x * x - x * x\<bar> \<le> max (x * x / 2 ^ 52) (1 / 2 ^ 1074)"
    by simp
  then show "\<exists>y. \<bar>y - x * x\<bar> \<le> max (x * x / 2 ^ 52) (1 / 2 ^ 1074)
      \<and> libm_pow2 example_libm x = round64 y"
    using libm_pow2_example by blast
qed

lemmas evals = r_1 r_m1 r_2 r_4 r_quarter r_180 r_s0 r_s0_sq r_b_half r_b_half_sq r_t2 r_sum

lemmas unfold_test = contains_point_def Let_def Galaxy_init_def Galaxy_init_typed_def float_pow2_def
  f64_sub_def f64_add_def f64_mul_def f64_div_def fl_sub_def libm_pow2_example

lemmas unfold_spec = r_norm_spec_def x_t_spec_def y_t_spec_def Galaxy_init_def
  Galaxy_init_typed_def Let_def f64_sub_def f64_add_def f64_mul_def f64_div_def fl_sub_def
  libm_pow2_example

section \<open>The containment test\<close>

lemma contains_point_r_norm_spec:
  "contains_point L g ra dec =
     (if raises_overflow L g then Inl OverflowError
      else Inr (fl_le (r_norm_spec L g ra dec) (Fin 1)))"
  by (simp add: contains_point_def raises_overflow_def float_pow2_def r_norm_spec_def
      x_t_spec_def y_t_spec_def rotation_spec_def Let_def)

lemma numpy_never_raises:
  "a_type g = NpFloat64 \<Longrightarrow> b_type g = NpFloat64 \<Longrightarrow> \<not> raises_overflow L g"
  by (simp add: raises_overflow_def)

lemma r_norm_spec_zero_a:
  assumes "libm_pow2 L 0 = Fin 0" "\<forall>x. not_negative (libm_pow2 L x)" "a g = Fin 0"
  shows "\<not> fl_le (r_norm_spec L g ra dec) (Fin 1)"
  unfolding r_norm_spec_def
  by (intro f64_add_PInf_not_le)
     (simp_all add: assms half_of_zero f64_div_by_zero f64_div_not_negative np_pow2_not_negative)

lemma r_norm_spec_zero_b:
  assumes "libm_pow2 L 0 = Fin 0" "\<forall>x. not_negative (libm_pow2 L x)" "b g = Fin 0"
  shows "\<not> fl_le (r_norm_spec L g ra dec) (Fin 1)"
  unfolding r_norm_spec_def
  by (intro f64_add_not_le_PInf)
     (simp_all add: assms half_of_zero f64_div_by_zero f64_div_not_negative np_pow2_not_negative)

text \<open>
  C1, as stated, fails. The claim is for every galaxy. A galaxy built from the Python
  floats \<open>radius = 60 \<sqdot> 2\<^sup>6\<^sup>0\<^sup>1\<close> and \<open>ratio = 1\<close> has \<open>a = b = 2\<^sup>6\<^sup>0\<^sup>1\<close>. At its own centre the
  radius of the formula is 0, which is at most 1, but the test returns nothing:
  \<^verbatim>\<open>(self.a / 2) ** 2\<close> overflows and raises \<open>OverflowError\<close>.
\<close>

theorem contains_point_formula_counterexample:
  "a (Galaxy_init_typed PyFloat PyFloat ''g'' (Fin 1) \<lparr>ra_deg = Fin 0, dec_deg = Fin 0\<rparr>
        (Fin (60 * 2 ^ 601)) (Fin 1) (Fin 0)) = Fin (2 ^ 601)
   \<and> b (Galaxy_init_typed PyFloat PyFloat ''g'' (Fin 1) \<lparr>ra_deg = Fin 0, dec_deg = Fin 0\<rparr>
        (Fin (60 * 2 ^ 601)) (Fin 1) (Fin 0)) = Fin (2 ^ 601)
   \<and> r_norm_exact (2 ^ 601) (2 ^ 601) 0 (0, 0) (0, 0) \<le> 1
   \<and> contains_point example_libm
     (Galaxy_init_typed PyFloat PyFloat ''g'' (Fin 1) \<lparr>ra_deg = Fin 0, dec_deg = Fin 0\<rparr>
        (Fin (60 * 2 ^ 601)) (Fin 1) (Fin 0))
     (Fin 0) (Fin 0) = Inl OverflowError"
  by (simp add: unfold_test deg2rad_0 r_pi64 libm_at_pi r_huge_half [simplified] r_huge_sq [simplified]
      r_norm_exact_def)

text \<open>
  C1, amended. \<^verbatim>\<open>contains_point\<close> evaluates the formula in binary64 arithmetic: the
  rotation angle \<open>\<pi> - rad(angle)\<close> with \<^verbatim>\<open>np.pi\<close> for \<open>\<pi>\<close>, the offsets \<open>x\<close> and \<open>y\<close>, the
  rotated coordinates \<open>x_t\<close> and \<open>y_t\<close> and the radius \<open>r\<close>, every operation rounded, the
  cosine, the sine and the squares as the C library returns them. It raises
  \<open>OverflowError\<close> when \<open>a\<close> or \<open>b\<close> is a Python float and the square of its half
  overflows; otherwise it returns \<open>True\<close> when the computed \<open>r\<close> is at most 1 and \<open>False\<close>
  when it is not (a NaN is not). With \<open>a\<close> and \<open>b\<close> numpy scalars it never raises. A
  computed \<open>r = 1\<close> is inside. On a library whose \<^verbatim>\<open>pow(0, 2)\<close> is 0 and whose squares are
  not negative, a galaxy with \<open>a = 0\<close> or \<open>b = 0\<close> contains no point.
\<close>

theorem contains_point_formula:
  "contains_point L g ra dec =
     (if raises_overflow L g then Inl OverflowError
      else Inr (fl_le (r_norm_spec L g ra dec) (Fin 1)))
   \<and> (a_type g = NpFloat64 \<and> b_type g = NpFloat64 \<longrightarrow>
        contains_point L g ra dec = Inr (fl_le (r_norm_spec L g ra dec) (Fin 1)))
   \<and> (r_norm_spec L g ra dec = Fin 1 \<and> \<not> raises_overflow L g \<longrightarrow>
        contains_point L g ra dec = Inr True)
   \<and> (libm_pow2 L 0 = Fin 0 \<and> (\<forall>x. not_negative (libm_pow2 L x))
        \<and> (a g = Fin 0 \<or> b g = Fin 0) \<longrightarrow>
        contains_point L g ra dec \<noteq> Inr True)"
proof (intro conjI impI)
  show "contains_point L g ra dec =
     (if raises_overflow L g then Inl OverflowError
      else Inr (fl_le (r_norm_spec L g ra dec) (Fin 1)))"
    by (rule contains_point_r_norm_spec)
next
  assume "a_type g = NpFloat64 \<and> b_type g = NpFloat64"
  then have "\<not> raises_overflow L g" by (simp add: numpy_never_raises)
  then show "contains_point L g ra dec = Inr (fl_le (r_norm_spec L g ra dec) (Fin 1))"
    by (simp add: contains_point_r_norm_spec)
next
  assume "r_norm_spec L g ra dec = Fin 1 \<and> \<not> raises_overflow L g"
  then show "contains_point L g ra dec = Inr True"
    by (simp add: contains_point_r_norm_spec)
next
  assume "libm_pow2 L 0 = Fin 0 \<and> (\<forall>x. not_negative (libm_pow2 L x))
        \<and> (a g = Fin 0 \<or> b g = Fin 0)"
  then have "\<not> fl_le (r_norm_spec L g ra dec) (Fin 1)"
    using r_norm_spec_zero_a [of L g] r_norm_spec_zero_b [of L g] by blast
  then show "contains_point L g ra dec \<noteq> Inr True"
    by (simp add: contains_point_r_norm_spec)
qed

text \<open>
  A galaxy with \<open>a = b = 2\<close> at 180 degrees, centred at the origin: the point \<open>(1, 0)\<close>
  has the computed radius 1 and is inside. A galaxy of radius 0 does not contain its
  centre.
\<close>

theorem contains_point_formula_witness:
  "a_type (Galaxy_init ''g'' (Fin 1) \<lparr>ra_deg = Fin 0, dec_deg = Fin 0\<rparr> (Fin 120) (Fin 1) (Fin 180))
     = NpFloat64
   \<and> b_type (Galaxy_init ''g'' (Fin 1) \<lparr>ra_deg = Fin 0, dec_deg = Fin 0\<rparr> (Fin 120) (Fin 1) (Fin 180))
     = NpFloat64
   \<and> r_norm_spec example_libm
        (Galaxy_init ''g'' (Fin 1) \<lparr>ra_deg = Fin 0, dec_deg = Fin 0\<rparr> (Fin 120) (Fin 1) (Fin 180))
        (Fin 1) (Fin 0) = Fin 1
   \<and> contains_point example_libm
        (Galaxy_init ''g'' (Fin 1) \<lparr>ra_deg = Fin 0, dec_deg = Fin 0\<rparr> (Fin 120) (Fin 1) (Fin 180))
        (Fin 1) (Fin 0) = Inr True
   \<and> libm_pow2 example_libm 0 = Fin 0
   \<and> (\<forall>x. not_negative (libm_pow2 example_libm x))
   \<and> a (Galaxy_init ''z'' (Fin 1) \<lparr>ra_deg = Fin 0, dec_deg = Fin 0\<rparr> (Fin 0) (Fin 1) (Fin 0))
     = Fin 0
   \<and> contains_point example_libm
        (Galaxy_init ''z'' (Fin 1) \<lparr>ra_deg = Fin 0, dec_deg = Fin 0\<rparr> (Fin 0) (Fin 1) (Fin 0))
        (Fin 0) (Fin 0) \<noteq> Inr True"
proof -
  let ?g = "Galaxy_init ''g'' (Fin 1) \<lparr>ra_deg = Fin 0, dec_deg = Fin 0\<rparr> (Fin 120) (Fin 1) (Fin 180)"
  let ?z = "Galaxy_init ''z'' (Fin 1) \<lparr>ra_deg = Fin 0, dec_deg = Fin 0\<rparr> (Fin 0) (Fin 1) (Fin 0)"
  have ty: "a_type ?g = NpFloat64" "b_type ?g = NpFloat64"
    by (simp_all add: Galaxy_init_def Galaxy_init_typed_def Let_def)
  then have ok: "\<not> raises_overflow example_libm ?g"
    by (simp add: numpy_never_raises)
  have ang: "angle ?g = Fin 180"
    by (simp add: Galaxy_init_def Galaxy_init_typed_def Let_def)
  have r: "r_norm_spec example_libm ?g (Fin 1) (Fin 0) = Fin 1"
    by (simp add: unfold_spec rotation_180 libm_at_0 evals [simplified])
  have z: "a ?z = Fin 0"
    by (simp add: Galaxy_init_def Galaxy_init_typed_def Let_def)
  from contains_point_formula [of example_libm ?g "Fin 1" "Fin 0"] r ok
  have 1: "contains_point example_libm ?g (Fin 1) (Fin 0) = Inr True"
    by blast
  from contains_point_formula [of example_libm ?z "Fin 0" "Fin 0"] z
    example_libm_pow2_zero example_libm_pow2_not_negative
  have 2: "contains_point example_libm ?z (Fin 0) (Fin 0) \<noteq> Inr True"
    by blast
  from ty r 1 z 2 example_libm_pow2_zero example_libm_pow2_not_negative
  show ?thesis by blast
qed

section \<open>The centre of a galaxy\<close>

lemma pow2_accurate_in_range:
  assumes "pow2_accurate L" "2 powi (- 1002) \<le> x * x" "x * x \<le> 2 powi 998"
  shows "\<exists>d. libm_pow2 L x = Fin d \<and> d \<noteq> 0"
proof -
  from assms(1) obtain y where y: "\<bar>y - x * x\<bar> \<le> max (x * x / 2 ^ 52) (1 / 2 ^ 1074)"
    and r: "libm_pow2 L x = round64 y"
    unfolding pow2_accurate_def by blast
  have s: "(1::real) / 2 ^ 1002 \<le> x * x"
    using assms(2) by (simp add: power_int_minus)
  have "x * x / 2 ^ 52 \<le> x * x / 2"
    using s by (intro divide_left_mono) simp_all
  moreover have "(1::real) / 2 ^ 1074 \<le> x * x / 2"
    using s by simp
  ultimately have "max (x * x / 2 ^ 52) (1 / 2 ^ 1074) \<le> x * x / 2"
    by simp
  with y have b: "\<bar>y - x * x\<bar> \<le> x * x / 2"
    by linarith
  have lo: "2 powi (- 1003) \<le> y"
  proof -
    have "x * x / 2 \<le> y" using b by linarith
    moreover have "(2::real) powi (- 1003) \<le> x * x / 2"
      using s by (simp add: power_int_minus)
    ultimately show ?thesis by linarith
  qed
  have hi: "y \<le> 2 powi 999"
  proof -
    have "y \<le> 2 * (x * x)" using b s by linarith
    moreover have "2 * (x * x) \<le> (2::real) powi 999"
      using assms(3) by simp
    ultimately show ?thesis by linarith
  qed
  from round64_between [OF lo hi]
  obtain d where d: "round64 y = Fin d" "2 powi (- 1003) \<le> d"
    by auto
  have "d \<noteq> 0"
    using d(2) by (smt (verit) zero_less_power_int)
  with d(1) r show ?thesis by simp
qed

lemma square_in_range:
  assumes "pow2_accurate L" "2 powi (- 500) \<le> \<alpha>" "\<alpha> \<le> 2 powi 500"
  shows "\<exists>d. float_pow2 L t (f64_div (Fin \<alpha>) (Fin 2)) = Inr (Fin d) \<and> d \<noteq> 0"
proof -
  have lo: "2 powi (- 501) \<le> \<alpha> / 2"
    using assms(2) by (simp add: power_int_minus)
  have hi: "\<alpha> / 2 \<le> 2 powi 499"
    using assms(3) by simp
  from round64_between [OF lo hi]
  obtain h where h: "round64 (\<alpha> / 2) = Fin h" "2 powi (- 501) \<le> h" "h \<le> 2 powi 499"
    by auto
  have hpos: "0 < h"
    using h(2) by (smt (verit) zero_less_power_int)
  have "2 powi (- 501) * 2 powi (- 501) \<le> h * h"
    using h(2) by (intro mult_mono) simp_all
  then have lo2: "2 powi (- 1002) \<le> h * h"
    by (simp add: power_int_minus)
  have "h * h \<le> 2 powi 499 * 2 powi 499"
    using h(3) hpos by (intro mult_mono) simp_all
  then have hi2: "h * h \<le> 2 powi 998"
    by simp
  from pow2_accurate_in_range [OF assms(1) lo2 hi2]
  obtain d where d: "libm_pow2 L h = Fin d" "d \<noteq> 0"
    by auto
  with h(1) show ?thesis
    by (simp add: float_pow2_def f64_div_def)
qed

lemma deg2rad_factor_le_1: "\<bar>5030569068109113 / 2 ^ 58\<bar> \<le> (1::real)"
  by simp

lemma rotation_finite:
  assumes "\<bar>\<theta>\<bar> \<le> 2 powi 1000"
  shows "\<exists>\<rho>. rotation_spec (Fin \<theta>) = Fin \<rho>"
proof -
  have "\<bar>\<theta> * (5030569068109113 / 2 ^ 58)\<bar> \<le> \<bar>\<theta>\<bar> * 1"
    unfolding abs_mult by (intro mult_left_mono deg2rad_factor_le_1) simp
  with assms have "\<bar>\<theta> * (5030569068109113 / 2 ^ 58)\<bar> \<le> 2 powi 1000"
    by simp
  from round64_abs_le [OF this]
  obtain r where r: "round64 (\<theta> * (5030569068109113 / 2 ^ 58)) = Fin r" "\<bar>r\<bar> \<le> 2 powi 1000"
    by auto
  have "\<bar>pi64\<bar> \<le> 2 powi 1000"
    by (simp add: pi64_def)
  with r(2) have "\<bar>pi64 - r\<bar> \<le> 2 powi 1000 + 2 powi 1000"
    by linarith
  then have "\<bar>pi64 - r\<bar> \<le> 2 powi 1001"
    by simp
  from round64_abs_le [OF this]
  obtain \<rho> where "round64 (pi64 - r) = Fin \<rho>"
    by auto
  with r(1) show ?thesis
    by (simp add: rotation_spec_def np_deg2rad64_def deg2rad_factor f64_mul_def f64_sub_def
        fl_sub_def)
qed

lemma centre_inside:
  assumes "libm_pow2 L 0 = Fin 0"
    and "ra_deg (center g) = Fin cx" "dec_deg (center g) = Fin cy"
    and "rotation_spec (angle g) = Fin \<rho>"
    and "float_pow2 L (a_type g) (f64_div (a g) (Fin 2)) = Inr a2" "nonzero_number a2"
    and "float_pow2 L (b_type g) (f64_div (b g) (Fin 2)) = Inr b2" "nonzero_number b2"
  shows "contains_point L g (ra_deg (center g)) (dec_deg (center g)) = Inr True"
proof -
  have x: "x_t_spec L g (ra_deg (center g)) (dec_deg (center g)) = Fin 0"
    using assms(2-4) by (simp add: x_t_spec_def f64_sub_def f64_mul_def fl_sub_def)
  have y: "y_t_spec L g (ra_deg (center g)) (dec_deg (center g)) = Fin 0"
    using assms(2-4) by (simp add: y_t_spec_def f64_sub_def f64_add_def f64_mul_def fl_sub_def)
  from float_pow2_Inr [OF assms(5)] float_pow2_Inr [OF assms(7)]
  have sq: "np_pow2 L (f64_div (a g) (Fin 2)) = a2" "np_pow2 L (f64_div (b g) (Fin 2)) = b2"
    and ok: "\<not> raises_overflow L g"
    by (auto simp: raises_overflow_def)
  have "r_norm_spec L g (ra_deg (center g)) (dec_deg (center g)) = Fin 0"
    using assms(1,6,8)
    by (simp add: r_norm_spec_def x y sq f64_div_zero_nonzero f64_add_def)
  with ok show ?thesis
    by (simp add: contains_point_r_norm_spec)
qed

text \<open>
  C8, as stated, fails. A galaxy built from \<open>radius = 60 \<sqdot> 2\<^sup>-\<^sup>6\<^sup>0\<^sup>0\<close> and \<open>ratio = 1\<close> has
  the finite, positive \<open>a = b = 2\<^sup>-\<^sup>6\<^sup>0\<^sup>0\<close>. The square of \<open>a / 2\<close> underflows to 0, at the
  centre the radius is \<open>0 / 0 + 0 / 0\<close>, which is NaN, and the test returns \<open>False\<close>.
\<close>

theorem center_contained_counterexample:
  "a (Galaxy_init ''g'' (Fin 1) \<lparr>ra_deg = Fin 0, dec_deg = Fin 0\<rparr> (Fin (60 / 2 ^ 600)) (Fin 1) (Fin 0))
     = Fin (1 / 2 ^ 600)
   \<and> b (Galaxy_init ''g'' (Fin 1) \<lparr>ra_deg = Fin 0, dec_deg = Fin 0\<rparr> (Fin (60 / 2 ^ 600)) (Fin 1) (Fin 0))
     = Fin (1 / 2 ^ 600)
   \<and> contains_point example_libm
       (Galaxy_init ''g'' (Fin 1) \<lparr>ra_deg = Fin 0, dec_deg = Fin 0\<rparr> (Fin (60 / 2 ^ 600)) (Fin 1) (Fin 0))
       (Fin 0) (Fin 0) = Inr False"
  by (simp add: unfold_test deg2rad_0 r_pi64 libm_at_pi r_tiny_half [simplified] r_tiny_sq [simplified])

text \<open>
  C8, amended. On a library whose \<^verbatim>\<open>pow(0, 2)\<close> is 0, a galaxy contains its centre when
  the centre and the rotation angle are finite and the squares of \<open>a / 2\<close> and \<open>b / 2\<close>
  are computed without an exception and are numbers other than zero. On a library whose
  \<^verbatim>\<open>pow(x, 2)\<close> is moreover within one unit in the last place, this holds for every
  galaxy with a finite centre, an angle of magnitude at most \<open>2\<^sup>1\<^sup>0\<^sup>0\<^sup>0\<close> and \<open>a\<close> and \<open>b\<close>
  between \<open>2\<^sup>-\<^sup>5\<^sup>0\<^sup>0\<close> and \<open>2\<^sup>5\<^sup>0\<^sup>0\<close>.
\<close>

theorem center_contained:
  "(libm_pow2 L 0 = Fin 0
      \<and> ra_deg (center g) = Fin cx \<and> dec_deg (center g) = Fin cy
      \<and> rotation_spec (angle g) = Fin \<rho>
      \<and> float_pow2 L (a_type g) (f64_div (a g) (Fin 2)) = Inr a2 \<and> nonzero_number a2
      \<and> float_pow2 L (b_type g) (f64_div (b g) (Fin 2)) = Inr b2 \<and> nonzero_number b2 \<longrightarrow>
    contains_point L g (ra_deg (center g)) (dec_deg (center g)) = Inr True)
   \<and> (libm_pow2 L 0 = Fin 0 \<and> pow2_accurate L
      \<and> ra_deg (center g) = Fin cx \<and> dec_deg (center g) = Fin cy
      \<and> angle g = Fin \<theta> \<and> \<bar>\<theta>\<bar> \<le> 2 powi 1000
      \<and> a g = Fin \<alpha> \<and> 2 powi (- 500) \<le> \<alpha> \<and> \<alpha> \<le> 2 powi 500
      \<and> b g = Fin \<beta> \<and> 2 powi (- 500) \<le> \<beta> \<and> \<beta> \<le> 2 powi 500 \<longrightarrow>
    contains_point L g (ra_deg (center g)) (dec_deg (center g)) = Inr True)"
proof (intro conjI impI)
  assume "libm_pow2 L 0 = Fin 0
      \<and> ra_deg (center g) = Fin cx \<and> dec_deg (center g) = Fin cy
      \<and> rotation_spec (angle g) = Fin \<rho>
      \<and> float_pow2 L (a_type g) (f64_div (a g) (Fin 2)) = Inr a2 \<and> nonzero_number a2
      \<and> float_pow2 L (b_type g) (f64_div (b g) (Fin 2)) = Inr b2 \<and> nonzero_number b2"
  then show "contains_point L g (ra_deg (center g)) (dec_deg (center g)) = Inr True"
    using centre_inside by blast
next
  assume h: "libm_pow2 L 0 = Fin 0 \<and> pow2_accurate L
      \<and> ra_deg (center g) = Fin cx \<and> dec_deg (center g) = Fin cy
      \<and> angle g = Fin \<theta> \<and> \<bar>\<theta>\<bar> \<le> 2 powi 1000
      \<and> a g = Fin \<alpha> \<and> 2 powi (- 500) \<le> \<alpha> \<and> \<alpha> \<le> 2 powi 500
      \<and> b g = Fin \<beta> \<and> 2 powi (- 500) \<le> \<beta> \<and> \<beta> \<le> 2 powi 500"
  then obtain \<rho>' where rot: "rotation_spec (angle g) = Fin \<rho>'"
    using rotation_finite [of \<theta>] by auto
  from h obtain da where da: "float_pow2 L (a_type g) (f64_div (a g) (Fin 2)) = Inr (Fin da)" "da \<noteq> 0"
    using square_in_range [of L \<alpha> "a_type g"] by auto
  from h obtain db where db: "float_pow2 L (b_type g) (f64_div (b g) (Fin 2)) = Inr (Fin db)" "db \<noteq> 0"
    using square_in_range [of L \<beta> "b_type g"] by auto
  from h have z: "libm_pow2 L 0 = Fin 0" by simp
  from h have c: "ra_deg (center g) = Fin cx" "dec_deg (center g) = Fin cy" by simp_all
  show "contains_point L g (ra_deg (center g)) (dec_deg (center g)) = Inr True"
    by (rule centre_inside [OF z c rot da(1) _ db(1)]) (simp_all add: da(2) db(2))
qed

text \<open>
  A galaxy with \<open>a = 2\<close> and \<open>b = 1\<close> at 45 degrees, centred at \<open>(10, -30)\<close>.
\<close>

theorem center_contained_witness:
  "libm_pow2 example_libm 0 = Fin 0
   \<and> pow2_accurate example_libm
   \<and> contains_point example_libm
     (Galaxy_init ''g'' (Fin 1) \<lparr>ra_deg = Fin 10, dec_deg = Fin (- 30)\<rparr> (Fin 120) (Fin (1 / 2))
        (Fin 45))
     (Fin 10) (Fin (- 30)) = Inr True"
  using center_contained
      [of example_libm
        "Galaxy_init ''g'' (Fin 1) \<lparr>ra_deg = Fin 10, dec_deg = Fin (- 30)\<rparr> (Fin 120)
             (Fin (1 / 2)) (Fin 45)"
        10 "- 30" _ _ _ 45 2 1]
    example_libm_pow2_zero example_libm_pow2_accurate
  by (simp add: Galaxy_init_def Galaxy_init_typed_def Let_def power_int_minus)

section \<open>The angle plus 180 degrees\<close>

lemma raises_overflow_angle [simp]: "raises_overflow L (g\<lparr>angle := v\<rparr>) = raises_overflow L g"
  by (simp add: raises_overflow_def)





section \<open>Construction and the derived fields\<close>

lemma Galaxy_init_typed_a: "a (Galaxy_init_typed tr tq nm d c rad rat ang) = fl_div rad (Fin 60)"
  by (simp add: Galaxy_init_typed_def Let_def)

lemma Galaxy_init_typed_b:
  "b (Galaxy_init_typed tr tq nm d c rad rat ang) = fl_mul (fl_div rad (Fin 60)) rat"
  by (simp add: Galaxy_init_typed_def Let_def)

lemma Galaxy_init_typed_area:
  "area (Galaxy_init_typed tr tq nm d c rad rat ang) =
     fl_mul (fl_mul np_pi (np_deg2rad (fl_div rad (Fin 60))))
            (np_deg2rad (fl_mul (fl_div rad (Fin 60)) rat))"
  by (simp add: Galaxy_init_typed_def Let_def)

lemma Galaxy_init_a: "a (Galaxy_init nm d c rad rat ang) = fl_div rad (Fin 60)"
  by (simp add: Galaxy_init_def Galaxy_init_typed_a)

lemma Galaxy_init_b:
  "b (Galaxy_init nm d c rad rat ang) = fl_mul (fl_div rad (Fin 60)) rat"
  by (simp add: Galaxy_init_def Galaxy_init_typed_b)

lemma Galaxy_init_area:
  "area (Galaxy_init nm d c rad rat ang) =
     fl_mul (fl_mul np_pi (np_deg2rad (fl_div rad (Fin 60))))
            (np_deg2rad (fl_mul (fl_div rad (Fin 60)) rat))"
  by (simp add: Galaxy_init_def Galaxy_init_typed_area)

text \<open>
  \<^verbatim>\<open>sample_angles\<close> assigns \<open>angle\<close> and nothing else: the galaxy after the assignment
  is the galaxy constructed with the new angle, with the same \<open>a\<close>, \<open>b\<close> and \<open>area\<close>.
\<close>

lemma Galaxy_init_angle_update:
  "(Galaxy_init nm d c rad rat ang)\<lparr>angle := v\<rparr> = Galaxy_init nm d c rad rat v"
  by (simp add: Galaxy_init_def Galaxy_init_typed_def Let_def)

lemma fl_div_60_isnan: "np_isnan (fl_div x (Fin 60)) = np_isnan x"
  by (cases x) simp_all

lemma Galaxy_init_typed_area_isnan:
  "np_isnan (area (Galaxy_init_typed tr tq nm d c rad rat ang)) \<longleftrightarrow>
     np_isnan (a (Galaxy_init_typed tr tq nm d c rad rat ang))
       \<or> np_isnan (b (Galaxy_init_typed tr tq nm d c rad rat ang))"
  unfolding Galaxy_init_typed_a Galaxy_init_typed_b Galaxy_init_typed_area
  by (cases rad; cases rat) (auto simp: np_pi_def np_deg2rad_def)

lemma Galaxy_init_typed_a_nan:
  "np_isnan (a (Galaxy_init_typed tr tq nm d c rad rat ang)) \<Longrightarrow>
     np_isnan (b (Galaxy_init_typed tr tq nm d c rad rat ang))"
  by (simp add: Galaxy_init_typed_a Galaxy_init_typed_b fl_mul_isnan)

lemma Galaxy_init_typed_NaN:
  assumes "np_isnan (a (Galaxy_init_typed tr tq nm d c rad rat ang))
         \<or> np_isnan (b (Galaxy_init_typed tr tq nm d c rad rat ang))
         \<or> np_isnan (area (Galaxy_init_typed tr tq nm d c rad rat ang))"
  shows "np_isnan (b (Galaxy_init_typed tr tq nm d c rad rat ang))"
    and "np_isnan (area (Galaxy_init_typed tr tq nm d c rad rat ang))"
proof -
  from assms have ab: "np_isnan (a (Galaxy_init_typed tr tq nm d c rad rat ang))
      \<or> np_isnan (b (Galaxy_init_typed tr tq nm d c rad rat ang))"
    by (auto simp: Galaxy_init_typed_area_isnan)
  then show "np_isnan (b (Galaxy_init_typed tr tq nm d c rad rat ang))"
    using Galaxy_init_typed_a_nan [of tr tq nm d c rad rat ang] by blast
  from ab show "np_isnan (area (Galaxy_init_typed tr tq nm d c rad rat ang))"
    by (simp add: Galaxy_init_typed_area_isnan)
qed

text \<open>
  C7, as stated, fails: a galaxy of radius 60 arcminutes whose ratio is NaN has
  \<open>a = 1\<close>, which is not NaN; only its \<open>b\<close> is NaN.
\<close>

theorem derived_fields_counterexample:
  "np_isnan
     (ratio (Galaxy_init ''g'' (Fin 1) \<lparr>ra_deg = Fin 0, dec_deg = Fin 0\<rparr> (Fin 60) NaN (Fin 0)))
   \<and> a (Galaxy_init ''g'' (Fin 1) \<lparr>ra_deg = Fin 0, dec_deg = Fin 0\<rparr> (Fin 60) NaN (Fin 0)) = Fin 1
   \<and> \<not> (np_isnan
          (a (Galaxy_init ''g'' (Fin 1) \<lparr>ra_deg = Fin 0, dec_deg = Fin 0\<rparr> (Fin 60) NaN (Fin 0)))
        \<and> np_isnan
          (b (Galaxy_init ''g'' (Fin 1) \<lparr>ra_deg = Fin 0, dec_deg = Fin 0\<rparr> (Fin 60) NaN (Fin 0))))"
  by (simp add: Galaxy_init_def Galaxy_init_typed_def Let_def)

text \<open>
  C7, amended. The constructor sets \<open>a = radius / 60\<close>, \<open>b = a * ratio\<close> and
  \<open>area = \<pi> rad(a) rad(b)\<close>. For a radius that is at least 0 and a ratio in \<open>(0, 1]\<close>,
  \<open>a \<ge> 0\<close>, \<open>b \<ge> 0\<close> and \<open>b \<le> a\<close>. \<open>a\<close> is NaN exactly when the radius is NaN; \<open>b\<close> is
  NaN when the radius is NaN and when the ratio is NaN.
\<close>

theorem derived_fields:
  "a (Galaxy_init nm d c rad rat ang) = fl_div rad (Fin 60)
   \<and> b (Galaxy_init nm d c rad rat ang) = fl_mul (a (Galaxy_init nm d c rad rat ang)) rat
   \<and> area (Galaxy_init nm d c rad rat ang) =
       fl_mul (fl_mul np_pi (np_deg2rad (a (Galaxy_init nm d c rad rat ang))))
              (np_deg2rad (b (Galaxy_init nm d c rad rat ang)))
   \<and> ((rad = PInf \<or> (\<exists>r. rad = Fin r \<and> 0 \<le> r)) \<and> (\<exists>q. rat = Fin q \<and> 0 < q \<and> q \<le> 1) \<longrightarrow>
        fl_le (Fin 0) (a (Galaxy_init nm d c rad rat ang))
        \<and> fl_le (Fin 0) (b (Galaxy_init nm d c rad rat ang))
        \<and> fl_le (b (Galaxy_init nm d c rad rat ang)) (a (Galaxy_init nm d c rad rat ang)))
   \<and> (np_isnan (a (Galaxy_init nm d c rad rat ang)) \<longleftrightarrow> np_isnan rad)
   \<and> (np_isnan rad \<longrightarrow> np_isnan (b (Galaxy_init nm d c rad rat ang)))
   \<and> (np_isnan rat \<longrightarrow> np_isnan (b (Galaxy_init nm d c rad rat ang)))"
proof (intro conjI impI)
  assume "(rad = PInf \<or> (\<exists>r. rad = Fin r \<and> 0 \<le> r)) \<and> (\<exists>q. rat = Fin q \<and> 0 < q \<and> q \<le> 1)"
  then obtain q where q: "rat = Fin q" "0 < q" "q \<le> 1"
    and r: "rad = PInf \<or> (\<exists>r. rad = Fin r \<and> 0 \<le> r)"
    by blast
  from r q show "fl_le (Fin 0) (a (Galaxy_init nm d c rad rat ang))"
    by (auto simp: Galaxy_init_a)
  from r q show "fl_le (Fin 0) (b (Galaxy_init nm d c rad rat ang))"
    by (auto simp: Galaxy_init_b)
  from r q show "fl_le (b (Galaxy_init nm d c rad rat ang)) (a (Galaxy_init nm d c rad rat ang))"
    by (auto simp: Galaxy_init_a Galaxy_init_b mult_left_le)
qed (simp_all add: Galaxy_init_a Galaxy_init_b Galaxy_init_area fl_div_60_isnan fl_mul_isnan)

theorem derived_fields_witness:
  "a (Galaxy_init ''g'' (Fin 1) \<lparr>ra_deg = Fin 0, dec_deg = Fin 0\<rparr> (Fin 120) (Fin (1 / 2)) (Fin 0))
     = Fin 2
   \<and> b (Galaxy_init ''g'' (Fin 1) \<lparr>ra_deg = Fin 0, dec_deg = Fin 0\<rparr> (Fin 120) (Fin (1 / 2)) (Fin 0))
     = Fin 1
   \<and> fl_le
       (b (Galaxy_init ''g'' (Fin 1) \<lparr>ra_deg = Fin 0, dec_deg = Fin 0\<rparr> (Fin 120) (Fin (1 / 2)) (Fin 0)))
       (a (Galaxy_init ''g'' (Fin 1) \<lparr>ra_deg = Fin 0, dec_deg = Fin 0\<rparr> (Fin 120) (Fin (1 / 2)) (Fin 0)))
   \<and> np_isnan (a (Galaxy_init ''g'' (Fin 1) \<lparr>ra_deg = Fin 0, dec_deg = Fin 0\<rparr> NaN (Fin 1) (Fin 0)))
   \<and> np_isnan (b (Galaxy_init ''g'' (Fin 1) \<lparr>ra_deg = Fin 0, dec_deg = Fin 0\<rparr> NaN (Fin 1) (Fin 0)))
   \<and> np_isnan (b (Galaxy_init ''g'' (Fin 1) \<lparr>ra_deg = Fin 0, dec_deg = Fin 0\<rparr> (Fin 60) NaN (Fin 0)))"
  using
    derived_fields
      [of "''g''" "Fin 1" "\<lparr>ra_deg = Fin 0, dec_deg = Fin 0\<rparr>" "Fin 120" "Fin (1 / 2)" "Fin 0"]
    derived_fields [of "''g''" "Fin 1" "\<lparr>ra_deg = Fin 0, dec_deg = Fin 0\<rparr>" NaN "Fin 1" "Fin 0"]
    derived_fields [of "''g''" "Fin 1" "\<lparr>ra_deg = Fin 0, dec_deg = Fin 0\<rparr>" "Fin 60" NaN "Fin 0"]
  by simp

section \<open>Galaxies with NaN fields\<close>

lemma r_norm_spec_NaN_a: "a g = NaN \<Longrightarrow> r_norm_spec L g ra dec = NaN"
  by (simp add: r_norm_spec_def)

lemma r_norm_spec_NaN_b: "b g = NaN \<Longrightarrow> r_norm_spec L g ra dec = NaN"
  by (simp add: r_norm_spec_def)

lemma raises_overflow_NaN_b:
  "b g = NaN \<Longrightarrow>
     raises_overflow L g = (a_type g = PyFloat \<and> pow2_overflows L (f64_div (a g) (Fin 2)))"
  by (simp add: raises_overflow_def)

lemma raises_overflow_NaN_a:
  "a g = NaN \<Longrightarrow>
     raises_overflow L g = (b_type g = PyFloat \<and> pow2_overflows L (f64_div (b g) (Fin 2)))"
  by (simp add: raises_overflow_def)

lemma contains_point_NaN_b:
  "np_isnan (b g) \<Longrightarrow>
     contains_point L g ra dec =
       (if a_type g = PyFloat \<and> pow2_overflows L (f64_div (a g) (Fin 2))
        then Inl OverflowError else Inr False)"
  by (auto simp: np_isnan_iff contains_point_r_norm_spec raises_overflow_NaN_b r_norm_spec_NaN_b)

lemma contains_point_NaN_a:
  "np_isnan (a g) \<Longrightarrow>
     contains_point L g ra dec =
       (if b_type g = PyFloat \<and> pow2_overflows L (f64_div (b g) (Fin 2))
        then Inl OverflowError else Inr False)"
  by (auto simp: np_isnan_iff contains_point_r_norm_spec raises_overflow_NaN_a r_norm_spec_NaN_a)

lemma total_area_loop_append:
  "total_area_loop t (xs @ ys) = total_area_loop (total_area_loop t xs) ys"
  by (induction xs arbitrary: t) auto

lemma total_area_loop_skip:
  "np_isnan (area g) \<Longrightarrow>
     total_area_loop t (pre @ (k, g) # post) = total_area_loop t (pre @ post)"
  by (simp add: total_area_loop_append)

lemma percentage_sky_cover_skip:
  "np_isnan (area g) \<Longrightarrow>
     percentage_sky_cover \<lparr>galaxies = pre @ (k, g) # post\<rparr>
       = percentage_sky_cover \<lparr>galaxies = pre @ post\<rparr>"
  by (simp add: percentage_sky_cover_def total_area_loop_skip)

text \<open>
  C2, as stated, fails. A galaxy built from the Python floats \<open>radius = 60 \<sqdot> 2\<^sup>6\<^sup>0\<^sup>1\<close> and
  \<open>ratio = NaN\<close> has \<open>a = 2\<^sup>6\<^sup>0\<^sup>1\<close>, and its \<open>b\<close> and its \<open>area\<close> are NaN. The test does not
  return \<open>False\<close>: \<^verbatim>\<open>(self.a / 2) ** 2\<close> raises \<open>OverflowError\<close>.
\<close>

theorem nan_galaxy_excluded_counterexample:
  "np_isnan (b (Galaxy_init_typed PyFloat PyFloat ''g'' (Fin 1) \<lparr>ra_deg = Fin 0, dec_deg = Fin 0\<rparr>
        (Fin (60 * 2 ^ 601)) NaN (Fin 0)))
   \<and> np_isnan (area (Galaxy_init_typed PyFloat PyFloat ''g'' (Fin 1) \<lparr>ra_deg = Fin 0, dec_deg = Fin 0\<rparr>
        (Fin (60 * 2 ^ 601)) NaN (Fin 0)))
   \<and> contains_point example_libm
     (Galaxy_init_typed PyFloat PyFloat ''g'' (Fin 1) \<lparr>ra_deg = Fin 0, dec_deg = Fin 0\<rparr>
        (Fin (60 * 2 ^ 601)) NaN (Fin 0))
     (Fin 0) (Fin 0) = Inl OverflowError"
  by (simp add: unfold_test deg2rad_0 r_pi64 libm_at_pi r_huge_half [simplified] r_huge_sq [simplified]
      np_deg2rad_def)

text \<open>
  C2, amended. For a galaxy whose \<open>b\<close> is NaN the test returns \<open>False\<close> at every point,
  unless \<open>a\<close> is a Python float and the square of its half overflows: then it raises
  \<open>OverflowError\<close>; likewise with \<open>a\<close> and \<open>b\<close> exchanged. When \<open>a\<close> and \<open>b\<close> are numpy scalars
  and one of them is NaN, it returns \<open>False\<close> and never raises. A constructed galaxy
  whose \<open>a\<close>, \<open>b\<close> or \<open>area\<close> is NaN has a NaN \<open>area\<close>; the test on it returns \<open>False\<close>
  unless its radius is a Python float and the square of \<open>a / 2\<close> overflows, and returns
  \<open>False\<close> when its \<open>a\<close> is NaN. The accumulation of \<open>percentage_sky_cover\<close> passes over
  a galaxy whose \<open>area\<close> is NaN: the total, and the percentage, of a catalog with the
  galaxy are those of the catalog without it.
\<close>

theorem nan_galaxy_excluded:
  "(np_isnan (b g) \<longrightarrow>
      contains_point L g ra dec =
        (if a_type g = PyFloat \<and> pow2_overflows L (f64_div (a g) (Fin 2))
         then Inl OverflowError else Inr False))
   \<and> (np_isnan (a g) \<longrightarrow>
      contains_point L g ra dec =
        (if b_type g = PyFloat \<and> pow2_overflows L (f64_div (b g) (Fin 2))
         then Inl OverflowError else Inr False))
   \<and> ((np_isnan (a g) \<or> np_isnan (b g)) \<and> a_type g = NpFloat64 \<and> b_type g = NpFloat64 \<longrightarrow>
      contains_point L g ra dec = Inr False)
   \<and> (np_isnan (a (Galaxy_init_typed tr tq nm d c rad rat ang))
        \<or> np_isnan (b (Galaxy_init_typed tr tq nm d c rad rat ang))
        \<or> np_isnan (area (Galaxy_init_typed tr tq nm d c rad rat ang)) \<longrightarrow>
      contains_point L (Galaxy_init_typed tr tq nm d c rad rat ang) ra dec =
        (if tr = PyFloat
            \<and> pow2_overflows L (f64_div (a (Galaxy_init_typed tr tq nm d c rad rat ang)) (Fin 2))
         then Inl OverflowError else Inr False)
      \<and> (tr = NpFloat64 \<or> np_isnan (a (Galaxy_init_typed tr tq nm d c rad rat ang)) \<longrightarrow>
           contains_point L (Galaxy_init_typed tr tq nm d c rad rat ang) ra dec = Inr False)
      \<and> np_isnan (area (Galaxy_init_typed tr tq nm d c rad rat ang)))
   \<and> (np_isnan (area g) \<longrightarrow>
      total_area_loop t (pre @ (k, g) # post) = total_area_loop t (pre @ post)
      \<and> percentage_sky_cover \<lparr>galaxies = pre @ (k, g) # post\<rparr>
          = percentage_sky_cover \<lparr>galaxies = pre @ post\<rparr>)"
proof -
  let ?G = "Galaxy_init_typed tr tq nm d c rad rat ang"
  have 1: "contains_point L g ra dec =
        (if a_type g = PyFloat \<and> pow2_overflows L (f64_div (a g) (Fin 2))
         then Inl OverflowError else Inr False)" if "np_isnan (b g)"
    using that by (rule contains_point_NaN_b)
  have 2: "contains_point L g ra dec =
        (if b_type g = PyFloat \<and> pow2_overflows L (f64_div (b g) (Fin 2))
         then Inl OverflowError else Inr False)" if "np_isnan (a g)"
    using that by (rule contains_point_NaN_a)
  have 3: "contains_point L g ra dec = Inr False"
    if "(np_isnan (a g) \<or> np_isnan (b g)) \<and> a_type g = NpFloat64 \<and> b_type g = NpFloat64"
    using that contains_point_NaN_a [of g L ra dec] contains_point_NaN_b [of g L ra dec]
    by auto
  have 4: "contains_point L ?G ra dec =
        (if tr = PyFloat \<and> pow2_overflows L (f64_div (a ?G) (Fin 2))
         then Inl OverflowError else Inr False)
      \<and> (tr = NpFloat64 \<or> np_isnan (a ?G) \<longrightarrow> contains_point L ?G ra dec = Inr False)
      \<and> np_isnan (area ?G)"
    if h: "np_isnan (a ?G) \<or> np_isnan (b ?G) \<or> np_isnan (area ?G)"
  proof -
    have ty: "a_type ?G = tr"
      by (simp add: Galaxy_init_typed_def Let_def)
    from Galaxy_init_typed_NaN [OF h] have bn: "np_isnan (b ?G)" and an: "np_isnan (area ?G)"
      by simp_all
    from contains_point_NaN_b [OF bn, of L ra dec]
    have inside: "contains_point L ?G ra dec =
        (if tr = PyFloat \<and> pow2_overflows L (f64_div (a ?G) (Fin 2))
         then Inl OverflowError else Inr False)"
      by (simp only: ty)
    have quiet: "contains_point L ?G ra dec = Inr False" if "tr = NpFloat64 \<or> np_isnan (a ?G)"
    proof -
      from that have "\<not> (tr = PyFloat \<and> pow2_overflows L (f64_div (a ?G) (Fin 2)))"
        by (auto simp: np_isnan_iff)
      with inside show ?thesis by simp
    qed
    from inside quiet an show ?thesis by blast
  qed
  have 5: "total_area_loop t (pre @ (k, g) # post) = total_area_loop t (pre @ post)
      \<and> percentage_sky_cover \<lparr>galaxies = pre @ (k, g) # post\<rparr>
          = percentage_sky_cover \<lparr>galaxies = pre @ post\<rparr>" if "np_isnan (area g)"
    using that by (simp add: total_area_loop_skip percentage_sky_cover_skip)
  from 1 2 3 4 5 show ?thesis
    by blast
qed

text \<open>
  A galaxy built with a NaN radius from numpy scalars, as from a row whose radius
  column held the missing value: its \<open>a\<close> and \<open>area\<close> are NaN, it does not contain its own
  centre, and a catalog of this one galaxy covers 0 percent.
\<close>

theorem nan_galaxy_excluded_witness:
  "np_isnan (a (Galaxy_init_typed NpFloat64 NpFloat64 ''g'' (Fin 1)
       \<lparr>ra_deg = Fin 0, dec_deg = Fin 0\<rparr> NaN (Fin 1) (Fin 0)))
   \<and> np_isnan (area (Galaxy_init_typed NpFloat64 NpFloat64 ''g'' (Fin 1)
       \<lparr>ra_deg = Fin 0, dec_deg = Fin 0\<rparr> NaN (Fin 1) (Fin 0)))
   \<and> contains_point example_libm
         (Galaxy_init_typed NpFloat64 NpFloat64 ''g'' (Fin 1)
            \<lparr>ra_deg = Fin 0, dec_deg = Fin 0\<rparr> NaN (Fin 1) (Fin 0))
         (Fin 0) (Fin 0) = Inr False
   \<and> percentage_sky_cover
        \<lparr>galaxies =
           [(''g'', Galaxy_init_typed NpFloat64 NpFloat64 ''g'' (Fin 1)
                      \<lparr>ra_deg = Fin 0, dec_deg = Fin 0\<rparr> NaN (Fin 1) (Fin 0))]\<rparr>
      = Fin 0"
proof -
  let ?G = "Galaxy_init_typed NpFloat64 NpFloat64 ''g'' (Fin 1)
       \<lparr>ra_deg = Fin 0, dec_deg = Fin 0\<rparr> NaN (Fin 1) (Fin 0)"
  have h: "np_isnan (a ?G)"
    by (simp add: Galaxy_init_typed_def Let_def)
  have ar: "np_isnan (area ?G)"
    by (simp add: Galaxy_init_typed_def Let_def np_pi_def np_deg2rad_def)
  have ty: "a_type ?G = NpFloat64" "b_type ?G = NpFloat64"
    by (simp_all add: Galaxy_init_typed_def Let_def)
  have e: "percentage_sky_cover \<lparr>galaxies = []\<rparr> = Fin 0"
    by (simp add: percentage_sky_cover_def np_pi_def)
  note t = nan_galaxy_excluded
        [of ?G example_libm "Fin 0" "Fin 0" NpFloat64 NpFloat64 "''g''" "Fin 1"
          "\<lparr>ra_deg = Fin 0, dec_deg = Fin 0\<rparr>" NaN "Fin 1" "Fin 0" "Fin 0" "[]" "''g''" "[]"]
  from t h ty have c: "contains_point example_libm ?G (Fin 0) (Fin 0) = Inr False"
    by blast
  from t ar have "percentage_sky_cover \<lparr>galaxies = [] @ (''g'', ?G) # []\<rparr>
      = percentage_sky_cover \<lparr>galaxies = [] @ []\<rparr>"
    by blast
  with e have p: "percentage_sky_cover \<lparr>galaxies = [(''g'', ?G)]\<rparr> = Fin 0"
    by simp
  from h ar c p show ?thesis
    by blast
qed

section \<open>The sky cover\<close>

lemma total_area_loop_fl_sum:
  "total_area_loop t items =
     fl_add t (fl_sum (filter (\<lambda>v. \<not> np_isnan v) (map (\<lambda>(k, g). area g) items)))"
proof (induction items arbitrary: t)
  case Nil
  then show ?case by (simp add: fl_sum_def fl_add_commute [of t])
next
  case (Cons item items)
  obtain k g where item: "item = (k, g)" by (cases item)
  show ?case
    by (simp add: item Cons.IH fl_sum_def fl_add_assoc)
qed

lemma percent_of_fraction:
  "fl_mul (fl_div t (Fin (4 * pi))) (Fin 100) = fl_div (fl_mul (Fin 100) t) (Fin (4 * pi))"
  by (cases t) simp_all

lemma percentage_sky_cover_spec: "percentage_sky_cover lv = sky_cover_spec lv"
  by (simp add: percentage_sky_cover_def sky_cover_spec_def total_area_loop_fl_sum np_pi_def
      percent_of_fraction)

lemma fl_sum_Fin: "fl_sum (map Fin As) = Fin (sum_list As)"
  by (induction As) (simp_all add: fl_sum_def)

lemma sky_cover_finite:
  assumes "filter (\<lambda>v. \<not> np_isnan v) (map (\<lambda>(k, g). area g) (galaxies lv)) = map Fin As"
  shows "percentage_sky_cover lv = Fin (100 * sum_list As / (4 * pi))"
  using assms by (simp add: percentage_sky_cover_spec sky_cover_spec_def fl_sum_Fin)

text \<open>
  C4. \<open>percentage_sky_cover\<close> is 100 times the sum of the areas that are not NaN,
  divided by \<open>4\<pi>\<close>; when these areas are the finite numbers \<open>As\<close> it is the real number
  \<open>100 (\<Sum> As) / (4\<pi>)\<close>. An empty catalog gives 0, one galaxy of finite area \<open>A\<close> gives
  \<open>100 A / (4\<pi>)\<close>, and there is no cap: one galaxy of radius \<open>43200 / \<pi>\<close> arcminutes
  and ratio 1 has area \<open>16\<pi>\<close> and gives 400.
\<close>

theorem percentage_sky_cover_sum:
  "percentage_sky_cover lv = sky_cover_spec lv
   \<and> (filter (\<lambda>v. \<not> np_isnan v) (map (\<lambda>(k, g). area g) (galaxies lv)) = map Fin As \<longrightarrow>
        percentage_sky_cover lv = Fin (100 * sum_list As / (4 * pi)))
   \<and> percentage_sky_cover \<lparr>galaxies = []\<rparr> = Fin 0
   \<and> (area g = Fin A \<longrightarrow> percentage_sky_cover \<lparr>galaxies = [(k, g)]\<rparr> = Fin (100 * A / (4 * pi)))
   \<and> percentage_sky_cover
        \<lparr>galaxies = [(''g'', Galaxy_init ''g'' (Fin 1) \<lparr>ra_deg = Fin 0, dec_deg = Fin 0\<rparr>
                               (Fin (43200 / pi)) (Fin 1) (Fin 0))]\<rparr> = Fin 400"
proof (intro conjI impI)
  show "percentage_sky_cover lv = sky_cover_spec lv"
    by (rule percentage_sky_cover_spec)
next
  assume "filter (\<lambda>v. \<not> np_isnan v) (map (\<lambda>(k, g). area g) (galaxies lv)) = map Fin As"
  then show "percentage_sky_cover lv = Fin (100 * sum_list As / (4 * pi))"
    by (rule sky_cover_finite)
next
  show "percentage_sky_cover \<lparr>galaxies = []\<rparr> = Fin 0"
    by (simp add: percentage_sky_cover_def np_pi_def)
next
  assume "area g = Fin A"
  then show "percentage_sky_cover \<lparr>galaxies = [(k, g)]\<rparr> = Fin (100 * A / (4 * pi))"
    by (simp add: percentage_sky_cover_def np_pi_def)
next
  show "percentage_sky_cover
        \<lparr>galaxies = [(''g'', Galaxy_init ''g'' (Fin 1) \<lparr>ra_deg = Fin 0, dec_deg = Fin 0\<rparr>
                               (Fin (43200 / pi)) (Fin 1) (Fin 0))]\<rparr> = Fin 400"
    by (simp add: percentage_sky_cover_def Galaxy_init_def Galaxy_init_typed_def Let_def np_pi_def np_deg2rad_def)
qed

text \<open>
  A galaxy of radius \<open>10800 / \<pi>\<close> arcminutes and ratio 1 has area \<open>\<pi>\<close> and covers 25
  percent, alone and beside a galaxy whose area is NaN.
\<close>

theorem percentage_sky_cover_sum_witness:
  "percentage_sky_cover
     \<lparr>galaxies = [(''g'', Galaxy_init ''g'' (Fin 1) \<lparr>ra_deg = Fin 0, dec_deg = Fin 0\<rparr>
                            (Fin (10800 / pi)) (Fin 1) (Fin 0)),
                  (''h'', Galaxy_init ''h'' (Fin 1) \<lparr>ra_deg = Fin 0, dec_deg = Fin 0\<rparr>
                            NaN (Fin 1) (Fin 0))]\<rparr> = Fin 25
   \<and> percentage_sky_cover
     \<lparr>galaxies = [(''g'', Galaxy_init ''g'' (Fin 1) \<lparr>ra_deg = Fin 0, dec_deg = Fin 0\<rparr>
                            (Fin (10800 / pi)) (Fin 1) (Fin 0))]\<rparr> = Fin 25"
proof -
  let ?g = "Galaxy_init ''g'' (Fin 1) \<lparr>ra_deg = Fin 0, dec_deg = Fin 0\<rparr> (Fin (10800 / pi))
              (Fin 1) (Fin 0)"
  let ?h = "Galaxy_init ''h'' (Fin 1) \<lparr>ra_deg = Fin 0, dec_deg = Fin 0\<rparr> NaN (Fin 1) (Fin 0)"
  have g: "area ?g = Fin pi"
    by (simp add: Galaxy_init_def Galaxy_init_typed_def Let_def np_pi_def np_deg2rad_def)
  have h: "area ?h = NaN"
    by (simp add: Galaxy_init_def Galaxy_init_typed_def Let_def np_pi_def np_deg2rad_def)
  have f: "filter (\<lambda>v. \<not> np_isnan v)
      (map (\<lambda>(k, g). area g) (galaxies \<lparr>galaxies = [(''g'', ?g), (''h'', ?h)]\<rparr>)) = map Fin [pi]"
    by (simp add: g h)
  have "percentage_sky_cover \<lparr>galaxies = [(''g'', ?g), (''h'', ?h)]\<rparr>
      = Fin (100 * sum_list [pi] / (4 * pi))"
    using f percentage_sky_cover_sum [of "\<lparr>galaxies = [(''g'', ?g), (''h'', ?h)]\<rparr>" "[pi]"]
    by blast
  moreover have "percentage_sky_cover \<lparr>galaxies = [(''g'', ?g)]\<rparr> = Fin (100 * pi / (4 * pi))"
    using g percentage_sky_cover_sum [of _ _ ?g pi "''g''"]
    by blast
  ultimately show ?thesis by simp
qed

section \<open>The scan for a containing galaxy\<close>

lemma intercepts_galaxy_loop_find:
  "intercepts_galaxy_loop L items ra dec =
     (case find (\<lambda>(k, g). contains_point L g ra dec \<noteq> Inr False) items of
        None \<Rightarrow> Inr (False, None)
      | Some (k, g) \<Rightarrow>
          (case contains_point L g ra dec of
             Inl e \<Rightarrow> Inl e
           | Inr inside \<Rightarrow> Inr (True, Some g)))"
  by (induction items) (auto split: sum.splits)

lemma intercepts_galaxy_loop_first:
  assumes "\<forall>(k', g') \<in> set pre. contains_point L g' ra dec = Inr False"
    and "contains_point L g ra dec = Inr True"
  shows "intercepts_galaxy_loop L (pre @ (k, g) # post) ra dec = Inr (True, Some g)"
  using assms by (induction pre) auto

lemma intercepts_galaxy_loop_none:
  assumes "\<forall>(k', g') \<in> set items. contains_point L g' ra dec = Inr False"
  shows "intercepts_galaxy_loop L items ra dec = Inr (False, None)"
  using assms by (induction items) auto

text \<open>
  C3. \<open>intercepts_galaxy\<close> returns \<open>(True, g)\<close> for the first item of the mapping, in
  insertion order, whose galaxy \<open>g\<close> contains the point, and \<open>(False, None)\<close> when no
  galaxy contains it. When the tests of the galaxies before \<open>g\<close> return \<open>False\<close> and the
  test of \<open>g\<close> returns \<open>True\<close>, \<open>g\<close> is returned whatever comes after it: of two overlapping
  galaxies the one inserted earlier wins. In full: the scan stops at the first galaxy
  whose test does not return \<open>False\<close>; it returns that galaxy when the test returned
  \<open>True\<close>, and leaves with the exception when the test raised one.
\<close>

theorem intercepts_galaxy_first_match:
  "intercepts_galaxy L lv ra dec =
     (case find (\<lambda>(k, g). contains_point L g ra dec \<noteq> Inr False) (galaxies lv) of
        None \<Rightarrow> Inr (False, None)
      | Some (k, g) \<Rightarrow>
          (case contains_point L g ra dec of
             Inl e \<Rightarrow> Inl e
           | Inr inside \<Rightarrow> Inr (True, Some g)))
   \<and> (galaxies lv = pre @ (k, g) # post
        \<and> (\<forall>(k', g') \<in> set pre. contains_point L g' ra dec = Inr False)
        \<and> contains_point L g ra dec = Inr True \<longrightarrow>
      intercepts_galaxy L lv ra dec = Inr (True, Some g))
   \<and> ((\<forall>(k', g') \<in> set (galaxies lv). contains_point L g' ra dec = Inr False) \<longrightarrow>
        intercepts_galaxy L lv ra dec = Inr (False, None))"
proof (intro conjI impI)
  show "intercepts_galaxy L lv ra dec =
     (case find (\<lambda>(k, g). contains_point L g ra dec \<noteq> Inr False) (galaxies lv) of
        None \<Rightarrow> Inr (False, None)
      | Some (k, g) \<Rightarrow>
          (case contains_point L g ra dec of
             Inl e \<Rightarrow> Inl e
           | Inr inside \<Rightarrow> Inr (True, Some g)))"
    unfolding intercepts_galaxy_def by (rule intercepts_galaxy_loop_find)
next
  assume "galaxies lv = pre @ (k, g) # post
        \<and> (\<forall>(k', g') \<in> set pre. contains_point L g' ra dec = Inr False)
        \<and> contains_point L g ra dec = Inr True"
  then show "intercepts_galaxy L lv ra dec = Inr (True, Some g)"
    unfolding intercepts_galaxy_def by (simp add: intercepts_galaxy_loop_first)
next
  assume "\<forall>(k', g') \<in> set (galaxies lv). contains_point L g' ra dec = Inr False"
  then show "intercepts_galaxy L lv ra dec = Inr (False, None)"
    unfolding intercepts_galaxy_def by (rule intercepts_galaxy_loop_none)
qed

text \<open>
  Three galaxies at 180 degrees: \<open>far\<close> is centred at \<open>(65, 0)\<close> with \<open>a = b = 2\<close>,
  \<open>small\<close> and \<open>large\<close> are centred at the origin with \<open>a = b = 2\<close> and \<open>a = b = 4\<close>.
  The point \<open>(1, 0)\<close> is outside \<open>far\<close> and inside both others; the scan returns
  \<open>small\<close>, which was inserted before \<open>large\<close>.
\<close>

theorem intercepts_galaxy_first_match_witness:
  "intercepts_galaxy example_libm
     \<lparr>galaxies =
        [(''far'', Galaxy_init ''far'' (Fin 1) \<lparr>ra_deg = Fin 65, dec_deg = Fin 0\<rparr> (Fin 120) (Fin 1) (Fin 180)),
         (''small'', Galaxy_init ''small'' (Fin 1) \<lparr>ra_deg = Fin 0, dec_deg = Fin 0\<rparr> (Fin 120) (Fin 1) (Fin 180)),
         (''large'', Galaxy_init ''large'' (Fin 1) \<lparr>ra_deg = Fin 0, dec_deg = Fin 0\<rparr> (Fin 240) (Fin 1) (Fin 180))]\<rparr>
     (Fin 1) (Fin 0)
   = Inr (True, Some (Galaxy_init ''small'' (Fin 1) \<lparr>ra_deg = Fin 0, dec_deg = Fin 0\<rparr> (Fin 120) (Fin 1) (Fin 180)))
   \<and> contains_point example_libm
       (Galaxy_init ''large'' (Fin 1) \<lparr>ra_deg = Fin 0, dec_deg = Fin 0\<rparr> (Fin 240) (Fin 1) (Fin 180))
       (Fin 1) (Fin 0) = Inr True
   \<and> intercepts_galaxy example_libm
     \<lparr>galaxies =
        [(''far'', Galaxy_init ''far'' (Fin 1) \<lparr>ra_deg = Fin 65, dec_deg = Fin 0\<rparr> (Fin 120) (Fin 1) (Fin 180))]\<rparr>
     (Fin 1) (Fin 0)
   = Inr (False, None)"
proof -
  let ?far = "Galaxy_init ''far'' (Fin 1) \<lparr>ra_deg = Fin 65, dec_deg = Fin 0\<rparr> (Fin 120) (Fin 1) (Fin 180)"
  let ?small = "Galaxy_init ''small'' (Fin 1) \<lparr>ra_deg = Fin 0, dec_deg = Fin 0\<rparr> (Fin 120) (Fin 1) (Fin 180)"
  let ?large = "Galaxy_init ''large'' (Fin 1) \<lparr>ra_deg = Fin 0, dec_deg = Fin 0\<rparr> (Fin 240) (Fin 1) (Fin 180)"
  have far: "contains_point example_libm ?far (Fin 1) (Fin 0) = Inr False"
    by (simp add: unfold_test deg2rad_180 libm_at_0 evals [simplified] r_m64 r_4096)
  have small: "contains_point example_libm ?small (Fin 1) (Fin 0) = Inr True"
    by (simp add: unfold_test deg2rad_180 libm_at_0 evals [simplified])
  have large: "contains_point example_libm ?large (Fin 1) (Fin 0) = Inr True"
    by (simp add: unfold_test deg2rad_180 libm_at_0 evals [simplified])
  have 1: "intercepts_galaxy example_libm
      \<lparr>galaxies = [(''far'', ?far), (''small'', ?small), (''large'', ?large)]\<rparr>
      (Fin 1) (Fin 0) = Inr (True, Some ?small)"
    using far small
      intercepts_galaxy_first_match
        [of example_libm "\<lparr>galaxies = [(''far'', ?far), (''small'', ?small), (''large'', ?large)]\<rparr>"
          "Fin 1" "Fin 0" "[(''far'', ?far)]" "''small''" ?small "[(''large'', ?large)]"]
    by simp
  have 2: "intercepts_galaxy example_libm \<lparr>galaxies = [(''far'', ?far)]\<rparr> (Fin 1) (Fin 0)
      = Inr (False, None)"
    using far
      intercepts_galaxy_first_match
        [of example_libm "\<lparr>galaxies = [(''far'', ?far)]\<rparr>" "Fin 1" "Fin 0"]
    by simp
  from 1 large 2 show ?thesis by simp
qed

section \<open>Lookup by name\<close>

text \<open>
  C9. \<^verbatim>\<open>__getattr__\<close> with a name that is no key of the mapping raises
  \<open>AttributeError\<close>: it returns no galaxy at all. A name that is a key returns the
  galaxy stored under it.
\<close>

theorem getattr_unknown_name:
  "(nm \<notin> fst ` set (galaxies lv) \<longrightarrow>
      LocalVolume_getattr lv nm = Inl AttributeError \<and> (\<forall>g. LocalVolume_getattr lv nm \<noteq> Inr g))
   \<and> (distinct (map fst (galaxies lv)) \<and> (nm, g) \<in> set (galaxies lv) \<longrightarrow>
      LocalVolume_getattr lv nm = Inr g)"
proof -
  have miss: "LocalVolume_getattr lv nm = Inl AttributeError \<and> (\<forall>g. LocalVolume_getattr lv nm \<noteq> Inr g)"
    if "nm \<notin> fst ` set (galaxies lv)"
  proof -
    from that have "map_of (galaxies lv) nm = None"
      by (simp add: map_of_eq_None_iff)
    then show ?thesis
      by (simp add: LocalVolume_getattr_def)
  qed
  have hit: "LocalVolume_getattr lv nm = Inr g"
    if "distinct (map fst (galaxies lv)) \<and> (nm, g) \<in> set (galaxies lv)"
  proof -
    from that have "map_of (galaxies lv) nm = Some g"
      by simp
    then show ?thesis
      by (simp add: LocalVolume_getattr_def)
  qed
  from miss hit show ?thesis by blast
qed

theorem getattr_unknown_name_witness:
  "LocalVolume_getattr
     \<lparr>galaxies =
        [(''M31'', Galaxy_init ''M31'' (Fin 1) \<lparr>ra_deg = Fin 0, dec_deg = Fin 0\<rparr> (Fin 120) (Fin 1) (Fin 0))]\<rparr>
     ''M33'' = Inl AttributeError
   \<and> LocalVolume_getattr
     \<lparr>galaxies =
        [(''M31'', Galaxy_init ''M31'' (Fin 1) \<lparr>ra_deg = Fin 0, dec_deg = Fin 0\<rparr> (Fin 120) (Fin 1) (Fin 0))]\<rparr>
     ''M31''
     = Inr (Galaxy_init ''M31'' (Fin 1) \<lparr>ra_deg = Fin 0, dec_deg = Fin 0\<rparr> (Fin 120) (Fin 1) (Fin 0))"
  using
    getattr_unknown_name
      [of "''M33''"
        "\<lparr>galaxies =
           [(''M31'', Galaxy_init ''M31'' (Fin 1) \<lparr>ra_deg = Fin 0, dec_deg = Fin 0\<rparr> (Fin 120) (Fin 1) (Fin 0))]\<rparr>"]
    getattr_unknown_name
      [of "''M31''"
        "\<lparr>galaxies =
           [(''M31'', Galaxy_init ''M31'' (Fin 1) \<lparr>ra_deg = Fin 0, dec_deg = Fin 0\<rparr> (Fin 120) (Fin 1) (Fin 0))]\<rparr>"
        "Galaxy_init ''M31'' (Fin 1) \<lparr>ra_deg = Fin 0, dec_deg = Fin 0\<rparr> (Fin 120) (Fin 1) (Fin 0)"]
  by simp

section \<open>The coordinate parser\<close>

lemma str_split_no_sep: "sep \<notin> set xs \<Longrightarrow> str_split sep xs = [xs]"
  by (induction xs) auto

lemma str_split_at_sep:
  "sep \<notin> set xs \<Longrightarrow> str_split sep (xs @ sep # ys) = xs # str_split sep ys"
  by (induction xs) auto

lemma str_split_once:
  "sep \<notin> set xs \<Longrightarrow> sep \<notin> set ys \<Longrightarrow> str_split sep (xs @ sep # ys) = [xs, ys]"
  by (simp add: str_split_at_sep str_split_no_sep)

lemma parse_skycoord_split:
  assumes "x = ra @ s # dec" "s \<notin> set ra" "s \<notin> set dec"
    and "s = CHR ''+'' \<or> s = CHR ''-'' \<and> CHR ''+'' \<notin> set x"
  shows "parse_skycoord SkyCoord_new x d =
     SkyCoord_new
       \<lparr>sc_string = (take 2 ra @ ''h'' @ take 2 (drop 2 ra) @ ''min'' @ drop 4 ra @ ''s'')
                      @ '' '' @ (s # take 2 dec @ ''.'' @ drop 2 dec),
        sc_distance = (d, Mpc), sc_frame = ''icrs'', sc_unit = (hourangle, deg)\<rparr>"
proof -
  have sign: "(if CHR ''+'' \<in> set x then CHR ''+'' else CHR ''-'') = s"
    using assms by auto
  have "str_split s x = [ra, dec]"
    using assms by (simp add: str_split_once)
  with sign show ?thesis
    by (simp add: parse_skycoord_def Let_def)
qed

lemma parse_skycoord_no_sign:
  assumes "CHR ''+'' \<notin> set x" "CHR ''-'' \<notin> set x"
  shows "parse_skycoord SkyCoord_new x d = Inl ValueError"
  using assms by (simp add: parse_skycoord_def Let_def str_split_no_sep)

text \<open>
  C5. A token \<open>ra @ [s] @ dec\<close> whose sign \<open>s\<close> is \<open>+\<close>, or is \<open>-\<close> with no \<open>+\<close> in the
  token, and occurs once, is split at \<open>s\<close>; the constructor of astropy receives the
  right ascension spliced as \<open>HH h MM min SS.ss s\<close>, a space, and the declination spliced
  as the sign, \<open>DD\<close>, a dot and the rest, with the distance in Mpc, the frame \<open>icrs\<close> and
  the units hour angle and degree. The token \<open>014813-300327\<close> with distance 3.5 gives
  the strings \<open>01h48min13s\<close> and \<open>-30.0327\<close>.
\<close>

theorem parse_skycoord_splice:
  "(x = ra @ s # dec \<and> s \<notin> set ra \<and> s \<notin> set dec
      \<and> (s = CHR ''+'' \<or> s = CHR ''-'' \<and> CHR ''+'' \<notin> set x) \<longrightarrow>
    parse_skycoord SkyCoord_new x d =
     SkyCoord_new
       \<lparr>sc_string = (take 2 ra @ ''h'' @ take 2 (drop 2 ra) @ ''min'' @ drop 4 ra @ ''s'')
                      @ '' '' @ (s # take 2 dec @ ''.'' @ drop 2 dec),
        sc_distance = (d, Mpc), sc_frame = ''icrs'', sc_unit = (hourangle, deg)\<rparr>)
   \<and> parse_skycoord SkyCoord_new ''014813-300327'' (Fin 3.5) =
       SkyCoord_new
         \<lparr>sc_string = ''01h48min13s -30.0327'',
          sc_distance = (Fin 3.5, Mpc), sc_frame = ''icrs'', sc_unit = (hourangle, deg)\<rparr>"
proof (intro conjI impI)
  assume h: "x = ra @ s # dec \<and> s \<notin> set ra \<and> s \<notin> set dec
      \<and> (s = CHR ''+'' \<or> s = CHR ''-'' \<and> CHR ''+'' \<notin> set x)"
  from h have 1: "x = ra @ s # dec" and 2: "s \<notin> set ra" and 3: "s \<notin> set dec"
    and 4: "s = CHR ''+'' \<or> s = CHR ''-'' \<and> CHR ''+'' \<notin> set x"
    by blast+
  show "parse_skycoord SkyCoord_new x d =
     SkyCoord_new
       \<lparr>sc_string = (take 2 ra @ ''h'' @ take 2 (drop 2 ra) @ ''min'' @ drop 4 ra @ ''s'')
                      @ '' '' @ (s # take 2 dec @ ''.'' @ drop 2 dec),
        sc_distance = (d, Mpc), sc_frame = ''icrs'', sc_unit = (hourangle, deg)\<rparr>"
    by (rule parse_skycoord_split [OF 1 2 3 4])
next
  show "parse_skycoord SkyCoord_new ''014813-300327'' (Fin 3.5) =
       SkyCoord_new
         \<lparr>sc_string = ''01h48min13s -30.0327'',
          sc_distance = (Fin 3.5, Mpc), sc_frame = ''icrs'', sc_unit = (hourangle, deg)\<rparr>"
    by (simp add: parse_skycoord_def Let_def)
qed

theorem parse_skycoord_splice_witness:
  "parse_skycoord Inr ''101530+4512.5'' (Fin 2) =
     Inr \<lparr>sc_string = ''10h15min30s +45.12.5'',
          sc_distance = (Fin 2, Mpc), sc_frame = ''icrs'', sc_unit = (hourangle, deg)\<rparr>"
  using parse_skycoord_splice [of "''101530+4512.5''" "''101530''" "CHR ''+''" "''4512.5''" Inr "Fin 2"]
  by simp

section \<open>Sampling the angles\<close>

lemma sample_angles_loop_angles:
  "map (\<lambda>(k, g). (k, angle g)) (snd (sample_angles_loop U s items)) =
     zip (map fst items) (map Fin (draws U s (length items)))"
proof (induction items arbitrary: s)
  case Nil
  then show ?case by simp
next
  case (Cons item items)
  obtain k g where item: "item = (k, g)" by (cases item)
  obtain v s' where u: "U 0 360 s = (v, s')" by (cases "U 0 360 s")
  obtain s'' items' where l: "sample_angles_loop U s' items = (s'', items')"
    by (cases "sample_angles_loop U s' items")
  from Cons.IH [of s'] l show ?case
    by (simp add: item u)
qed

lemma result_angles_from:
  "result_angles
     (let (s1, items) = sample_angles_loop U s0 (galaxies lv) in Inr (s1, lv\<lparr>galaxies := items\<rparr>)) =
   Inr (zip (map fst (galaxies lv)) (map Fin (draws U s0 (length (galaxies lv)))))"
proof -
  obtain s1 items where l: "sample_angles_loop U s0 (galaxies lv) = (s1, items)"
    by (cases "sample_angles_loop U s0 (galaxies lv)")
  with sample_angles_loop_angles [of U s0 "galaxies lv"] show ?thesis
    by (simp add: result_angles_def angles_by_name_def)
qed

lemma sample_angles_seeded:
  assumes "seed \<noteq> 0" "np_random_seed seed = Inr s0"
  shows "result_angles (sample_angles np_random_seed U (Some seed) s lv) =
     Inr (zip (map fst (galaxies lv)) (map Fin (draws U s0 (length (galaxies lv)))))"
  using assms result_angles_from [of U s0 lv] by (simp add: sample_angles_def)

lemma sample_angles_seed_rejected:
  assumes "seed \<noteq> 0" "np_random_seed seed = Inl e"
  shows "result_angles (sample_angles np_random_seed U (Some seed) s lv) = Inl e"
  using assms by (simp add: sample_angles_def result_angles_def)

lemma sample_angles_same_seed:
  assumes "seed \<noteq> 0" "map fst (galaxies lv1) = map fst (galaxies lv2)"
  shows "result_angles (sample_angles np_random_seed U (Some seed) s1 lv1) =
     result_angles (sample_angles np_random_seed U (Some seed) s2 lv2)"
proof (cases "np_random_seed seed")
  case (Inl e)
  with assms(1) show ?thesis by (simp add: sample_angles_seed_rejected)
next
  case (Inr s0)
  from assms(2) have "length (galaxies lv1) = length (galaxies lv2)"
    by (rule map_eq_imp_length_eq)
  with assms Inr show ?thesis by (simp add: sample_angles_seeded)
qed

lemma draws_range:
  assumes "\<forall>s. 0 \<le> fst (U 0 360 s) \<and> fst (U 0 360 s) < 360"
  shows "\<forall>v \<in> set (draws U s n). 0 \<le> v \<and> v < 360"
proof (induction n arbitrary: s)
  case 0
  then show ?case by simp
next
  case (Suc n)
  obtain v s' where u: "U 0 360 s = (v, s')" by (cases "U 0 360 s")
  from assms have "0 \<le> fst (U 0 360 s) \<and> fst (U 0 360 s) < 360" by (rule spec)
  with u have "0 \<le> v \<and> v < 360" by simp
  with Suc [of s'] u show ?case by simp
qed

text \<open>
  C6. With a seed that is not 0, \<^verbatim>\<open>sample_angles\<close> first seeds the generator; when
  numpy accepts the seed and installs the state \<open>s0\<close>, the galaxies receive, in
  insertion order, the successive numbers that \<^verbatim>\<open>np.random.uniform(0, 360)\<close> returns from
  \<open>s0\<close>, whatever the state of the generator and the angles were before. Two catalogs
  with the same names in the same order, in any two prior states, end with the same
  angle under each name (or with the same error, when numpy rejects the seed). When
  every number the generator returns lies in \<open>[0, 360)\<close>, so does every angle drawn.
\<close>

theorem sample_angles_reproducible:
  assumes "seed \<noteq> 0"
  shows "(np_random_seed seed = Inr s0 \<longrightarrow>
       result_angles (sample_angles np_random_seed U (Some seed) s1 lv1) =
         Inr (zip (map fst (galaxies lv1)) (map Fin (draws U s0 (length (galaxies lv1))))))
    \<and> (map fst (galaxies lv1) = map fst (galaxies lv2) \<longrightarrow>
       result_angles (sample_angles np_random_seed U (Some seed) s1 lv1) =
         result_angles (sample_angles np_random_seed U (Some seed) s2 lv2))
    \<and> ((\<forall>s. 0 \<le> fst (U 0 360 s) \<and> fst (U 0 360 s) < 360) \<longrightarrow>
         (\<forall>v \<in> set (draws U s0 (length (galaxies lv1))). 0 \<le> v \<and> v < 360))"
proof (intro conjI impI)
  assume "np_random_seed seed = Inr s0"
  with assms show "result_angles (sample_angles np_random_seed U (Some seed) s1 lv1) =
         Inr (zip (map fst (galaxies lv1)) (map Fin (draws U s0 (length (galaxies lv1)))))"
    by (rule sample_angles_seeded)
next
  assume "map fst (galaxies lv1) = map fst (galaxies lv2)"
  with assms show "result_angles (sample_angles np_random_seed U (Some seed) s1 lv1) =
         result_angles (sample_angles np_random_seed U (Some seed) s2 lv2)"
    by (rule sample_angles_same_seed)
next
  assume "\<forall>s. 0 \<le> fst (U 0 360 s) \<and> fst (U 0 360 s) < 360"
  then show "\<forall>v \<in> set (draws U s0 (length (galaxies lv1))). 0 \<le> v \<and> v < 360"
    by (rule draws_range)
qed

text \<open>
  A generator whose state is a counter and which returns the lower bound in an even
  state and the midpoint in an odd one: from seed 42, two catalogs with the names \<open>A\<close>
  and \<open>B\<close>, different prior angles and different prior states, both end with the angles
  0 and 180.
\<close>

theorem sample_angles_reproducible_witness:
  "result_angles
     (sample_angles (\<lambda>n. if 0 \<le> n then Inr (nat n) else Inl ValueError)
        (\<lambda>lo hi s. (if even s then lo else (lo + hi) / 2, Suc s)) (Some 42) 5
        \<lparr>galaxies =
           [(''A'', Galaxy_init ''A'' (Fin 1) \<lparr>ra_deg = Fin 0, dec_deg = Fin 0\<rparr> (Fin 120) (Fin 1) (Fin 0)),
            (''B'', Galaxy_init ''B'' (Fin 2) \<lparr>ra_deg = Fin 5, dec_deg = Fin 5\<rparr> (Fin 60) (Fin 1) (Fin 0))]\<rparr>)
   = Inr [(''A'', Fin 0), (''B'', Fin 180)]
   \<and> result_angles
     (sample_angles (\<lambda>n. if 0 \<le> n then Inr (nat n) else Inl ValueError)
        (\<lambda>lo hi s. (if even s then lo else (lo + hi) / 2, Suc s)) (Some 42) 8
        \<lparr>galaxies =
           [(''A'', Galaxy_init ''A'' (Fin 1) \<lparr>ra_deg = Fin 0, dec_deg = Fin 0\<rparr> (Fin 120) (Fin 1) (Fin 77)),
            (''B'', Galaxy_init ''B'' (Fin 2) \<lparr>ra_deg = Fin 5, dec_deg = Fin 5\<rparr> (Fin 60) (Fin 1) (Fin 99))]\<rparr>)
   = Inr [(''A'', Fin 0), (''B'', Fin 180)]"
proof -
  let ?S = "\<lambda>n::int. if 0 \<le> n then Inr (nat n) else Inl ValueError"
  let ?U = "\<lambda>(lo::real) (hi::real) (s::nat). (if even s then lo else (lo + hi) / 2, Suc s)"
  let ?lv1 = "\<lparr>galaxies =
           [(''A'', Galaxy_init ''A'' (Fin 1) \<lparr>ra_deg = Fin 0, dec_deg = Fin 0\<rparr> (Fin 120) (Fin 1) (Fin 0)),
            (''B'', Galaxy_init ''B'' (Fin 2) \<lparr>ra_deg = Fin 5, dec_deg = Fin 5\<rparr> (Fin 60) (Fin 1) (Fin 0))]\<rparr>"
  let ?lv2 = "\<lparr>galaxies =
           [(''A'', Galaxy_init ''A'' (Fin 1) \<lparr>ra_deg = Fin 0, dec_deg = Fin 0\<rparr> (Fin 120) (Fin 1) (Fin 77)),
            (''B'', Galaxy_init ''B'' (Fin 2) \<lparr>ra_deg = Fin 5, dec_deg = Fin 5\<rparr> (Fin 60) (Fin 1) (Fin 99))]\<rparr>"
  have seed: "(42::int) \<noteq> 0" by simp
  have ok: "?S 42 = Inr 42" by simp
  have names: "map fst (galaxies ?lv1) = map fst (galaxies ?lv2)" by simp
  have range: "\<forall>s. 0 \<le> fst (?U 0 360 s) \<and> fst (?U 0 360 s) < 360" by simp
  have d: "draws ?U 42 (length (galaxies ?lv1)) = [0, 180]"
    by (simp add: Let_def)
  note t = sample_angles_reproducible [of 42 ?S 42 ?U 5 ?lv1 ?lv2 8, OF seed]
  from t ok have 1: "result_angles (sample_angles ?S ?U (Some 42) 5 ?lv1) =
      Inr (zip (map fst (galaxies ?lv1)) (map Fin (draws ?U 42 (length (galaxies ?lv1)))))"
    by blast
  from t names have 2: "result_angles (sample_angles ?S ?U (Some 42) 5 ?lv1) =
      result_angles (sample_angles ?S ?U (Some 42) 8 ?lv2)"
    by blast
  from t range have 3: "\<forall>v \<in> set (draws ?U 42 (length (galaxies ?lv1))). 0 \<le> v \<and> v < 360"
    by blast
  from 1 d have "result_angles (sample_angles ?S ?U (Some 42) 5 ?lv1) = Inr [(''A'', Fin 0), (''B'', Fin 180)]"
    by simp
  with 2 show ?thesis by simp
qed

end
